theory Spec2Isabelle
  imports Complex_Main
begin

section \<open>Data model\<close>

text \<open>
  The back end keeps two collections in a document store: Users (the credential store) and
  Students (one profile per student user). A JavaScript object whose keys may be missing is a
  record of optional fields (\<open>None\<close> is \<open>undefined\<close>); a document identifier is a
  natural number; a \<open>Date\<close> is a number of milliseconds. Strings are compared as the code
  compares them (\<open>===\<close>), so roles and statuses stay strings.

  Numbers that hold amounts, credits, years and semesters are integers here, grade points and
  percentages are rationals; the rounding of JavaScript's doubles is outside the model.
  A character of a string is a code unit below 256. The setters of the Student schema
  (\<open>trim\<close>, \<open>lowercase\<close>) and its validators (\<open>required\<close>, \<open>enum\<close>, \<open>min\<close>,
  \<open>max\<close>, \<open>match\<close>) are modelled: they decide what a write stores and whether it fails.
  The fields of a Student that no route writes and no statement below reads
  (\<open>documents\<close>, \<open>academicPerformance\<close>, \<open>placementInfo\<close>, \<open>lastAttendanceDate\<close>,
  \<open>remarks\<close>) are left out.
\<close>

type_synonym objectId = nat
type_synonym date = nat

text \<open>
  Modelled from the spec: the User schema (\<open>models/User.js\<close>) is not among the sources. The
  spec lists its fields: unique \<open>username\<close>, unique \<open>email\<close>, the secret password hash,
  \<open>firstName\<close>, \<open>lastName\<close>, \<open>role\<close>, \<open>isActive\<close> and \<open>lastLogin\<close>.
\<close>

record user =
  u_id :: objectId
  username :: string
  email :: string
  password :: string
  firstName :: string
  lastName :: string
  role :: string
  isActive :: bool
  lastLogin :: "date option"

record address =
  street :: "string option"
  city :: "string option"
  state :: "string option"
  zipCode :: "string option"
  country :: "string option"

record academicInfo =
  collegeName :: "string option"
  department :: "string option"
  course :: "string option"
  specialization :: "string option"
  year :: "int option"
  semester :: "int option"
  cgpa :: "rat option"
  totalCredits :: "int option"
  earnedCredits :: "int option"
  attendancePercentage :: "rat option"

record guardianInfo =
  g_name :: "string option"
  g_relationship :: "string option"
  g_phone :: "string option"
  g_email :: "string option"

record emergencyContact =
  ec_name :: "string option"
  ec_relationship :: "string option"
  ec_phone :: "string option"

record financialInfo =
  feeStructure :: "string option"
  totalFees :: "int option"
  paidFees :: "int option"
  scholarshipAmount :: "int option"
  lastPaymentDate :: "date option"

record hostelInfo =
  hostelName :: "string option"
  roomNumber :: "string option"
  hostelFees :: "int option"
  isHostelite :: "bool option"

record student =
  s_id :: objectId
  userId :: objectId
  studentId :: string
  dateOfBirth :: date
  gender :: string
  phone :: string
  address :: address
  academicInfo :: academicInfo
  guardianInfo :: guardianInfo
  emergencyContact :: emergencyContact
  financialInfo :: "financialInfo option"
  hostelInfo :: "hostelInfo option"
  status :: string
  enrollmentDate :: date
  graduationDate :: "date option"
  createdAt :: date

section \<open>The fee-structure document\<close>

text \<open>
  \<open>GET /api/admin/students/:id/fee-structure\<close> draws a table \<open>feeBreakdown\<close>. Its last
  rows are computed from the student. \<open>x || d\<close> on a number is \<open>d\<close> when \<open>x\<close> is
  missing or zero; \<open>obj?.field\<close> is missing when \<open>obj\<close> is.
\<close>

definition orNum :: "int option \<Rightarrow> int \<Rightarrow> int" where
  "orNum x d = (case x of None \<Rightarrow> d | Some n \<Rightarrow> if n = 0 then d else n)"

definition chain :: "'a option \<Rightarrow> ('a \<Rightarrow> 'b option) \<Rightarrow> 'b option" where
  "chain obj field = (case obj of None \<Rightarrow> None | Some ob \<Rightarrow> field ob)"

definition truthy :: "bool option \<Rightarrow> bool" where
  "truthy b = (b = Some True)"

text \<open>A cell of the table is a fixed text or a number printed by a template literal.\<close>

datatype cell = Txt string | Num int

definition hostelFeesRow :: "student \<Rightarrow> cell" where
  "hostelFeesRow st =
     (if truthy (chain (hostelInfo st) isHostelite)
      then Num (orNum (chain (hostelInfo st) hostelFees) 15000)
      else Txt ''0'')"

definition totalFeesRow :: "student \<Rightarrow> int" where
  "totalFeesRow st =
     orNum (chain (financialInfo st) totalFees) 40000
     + (if truthy (chain (hostelInfo st) isHostelite)
        then orNum (chain (hostelInfo st) hostelFees) 0 else 0)"

definition scholarshipRow :: "student \<Rightarrow> int" where
  "scholarshipRow st = orNum (chain (financialInfo st) scholarshipAmount) 0"

definition paidRow :: "student \<Rightarrow> int" where
  "paidRow st = orNum (chain (financialInfo st) paidFees) 0"

definition balanceRow :: "student \<Rightarrow> int" where
  "balanceRow st =
     (orNum (chain (financialInfo st) totalFees) 40000
      + (if truthy (chain (hostelInfo st) isHostelite)
         then orNum (chain (hostelInfo st) hostelFees) 0 else 0))
     - orNum (chain (financialInfo st) scholarshipAmount) 0
     - orNum (chain (financialInfo st) paidFees) 0"

text \<open>
  The total as the spec words it, for comparison with \<open>totalFeesRow\<close>:
  \<open>studentTotalFees||40000 + (isHostelite ? hostelFees||15000 : 0)\<close>.
\<close>

definition claimedTotalFees :: "student \<Rightarrow> int" where
  "claimedTotalFees st =
     orNum (chain (financialInfo st) totalFees) 40000
     + (if truthy (chain (hostelInfo st) isHostelite)
        then orNum (chain (hostelInfo st) hostelFees) 15000 else 0)"

definition feeSummary :: "student \<Rightarrow> (string \<times> cell) list" where
  "feeSummary st =
     [(''Total Academic Fees:'', Txt ''40,000''),
      (''Hostel Fees:'', hostelFeesRow st),
      (''Total Fees:'', Num (totalFeesRow st)),
      (''Scholarship Amount:'', Num (scholarshipRow st)),
      (''Paid Amount:'', Num (paidRow st)),
      (''Balance Amount:'', Num (balanceRow st))]"

section \<open>The document store and the collaborators\<close>

text \<open>
  A collection is a list of documents in insertion order. \<open>findOne\<close> returns the first
  match (\<open>find\<close> of the list library), \<open>findByIdAndUpdate\<close> and \<open>findByIdAndDelete\<close>
  touch the first match only. \<open>nextId\<close> is the source of fresh document identifiers.
  The store itself does not fail. Of the exceptions a handler catches, the model has those of
  the schema's validators and unique indexes, the read of a populated User that is missing,
  and the failing count of admins, which the registration handler treats on its own.
\<close>

record store =
  users :: "user list"
  students :: "student list"
  nextId :: objectId

fun updateFirst :: "('a \<Rightarrow> bool) \<Rightarrow> ('a \<Rightarrow> 'a) \<Rightarrow> 'a list \<Rightarrow> 'a list" where
  "updateFirst P f [] = []"
| "updateFirst P f (x # xs) = (if P x then f x # xs else x # updateFirst P f xs)"

fun deleteFirst :: "('a \<Rightarrow> bool) \<Rightarrow> 'a list \<Rightarrow> 'a list" where
  "deleteFirst P [] = []"
| "deleteFirst P (x # xs) = (if P x then xs else x # deleteFirst P xs)"

definition userById :: "store \<Rightarrow> objectId \<Rightarrow> user option" where
  "userById s i = find (\<lambda>u. u_id u = i) (users s)"

definition studentById :: "store \<Rightarrow> objectId \<Rightarrow> student option" where
  "studentById s i = find (\<lambda>st. s_id st = i) (students s)"

definition studentByUserId :: "store \<Rightarrow> objectId \<Rightarrow> student option" where
  "studentByUserId s i = find (\<lambda>st. userId st = i) (students s)"

definition countAdmins :: "store \<Rightarrow> nat" where
  "countAdmins s = length (filter (\<lambda>u. role u = ''admin'') (users s))"

text \<open>
  What the handlers call and the sources do not hold: the e-mail test of the validation
  library, the password hash and its comparison (methods of the User model), the signing and
  verification of session tokens, the regular-expression search of the store (\<open>$regex\<close>
  with option \<open>i\<close>), the default of \<open>isActive\<close> in the User schema, and the state of the
  process: the connection's \<open>readyState\<close>, whether \<open>JWT_SECRET\<close> is configured, and
  whether the count of admins that \<open>register\<close> asks for throws.
\<close>

record env =
  isEmail :: "string \<Rightarrow> bool"
  hashPassword :: "string \<Rightarrow> string"
  comparePassword :: "string \<Rightarrow> string \<Rightarrow> bool"
  jwtSign :: "objectId \<Rightarrow> string"
  jwtVerify :: "string \<Rightarrow> objectId option"
  regexTest :: "string \<Rightarrow> string \<Rightarrow> bool"
  isActiveDefault :: bool
  readyState :: nat
  jwtSecretSet :: bool
  adminCountThrows :: bool

text \<open>
  A response: \<open>Success code message data\<close> is \<open>{status: 'success', message, data}\<close>,
  \<open>Failure code message\<close> is \<open>{status: 'error', message}\<close>, \<open>ValidationFailed errors\<close>
  is the 400 response \<open>{status: 'error', message: 'Validation failed', errors}\<close> and
  \<open>ServerError message\<close> is the 500 response of a handler's \<open>catch\<close>, which adds the
  exception's text under \<open>error\<close>. A handler returns its response and the store it leaves.
\<close>

datatype 'a reply =
    Success nat "string option" 'a
  | Failure nat string
  | ValidationFailed "string list"
  | ServerError string

fun isSuccess :: "'a reply \<Rightarrow> bool" where
  "isSuccess (Success c m d) = True"
| "isSuccess r = False"

fun statusCode :: "'a reply \<Rightarrow> nat" where
  "statusCode (Success c m d) = c"
| "statusCode (Failure c m) = c"
| "statusCode (ValidationFailed es) = 400"
| "statusCode (ServerError m) = 500"

section \<open>Request validation\<close>

text \<open>
  The validation chains of the routes. A chain yields the messages of the checks that fail;
  \<open>optional\<close> skips a field that is missing.
\<close>

definition check :: "bool \<Rightarrow> string \<Rightarrow> string list" where
  "check ok msg = (if ok then [] else [msg])"

definition optional :: "'a option \<Rightarrow> ('a \<Rightarrow> string list) \<Rightarrow> string list" where
  "optional v chk = (case v of None \<Rightarrow> [] | Some x \<Rightarrow> chk x)"

definition str :: "string option \<Rightarrow> string" where
  "str v = (case v of None \<Rightarrow> [] | Some s \<Rightarrow> s)"

definition isDigit :: "char \<Rightarrow> bool" where
  "isDigit c = (c \<in> set ''0123456789'')"

definition isAlnum :: "char \<Rightarrow> bool" where
  "isAlnum c = (c \<in> set ''0123456789abcdefghijklmnopqrstuvwxyzABCDEFGHIJKLMNOPQRSTUVWXYZ'')"

definition isAlphanumeric :: "string \<Rightarrow> bool" where
  "isAlphanumeric s = (s \<noteq> [] \<and> list_all isAlnum s)"

text \<open>The phone pattern \<open>^[\+]?[1-9][\d]{0,15}$\<close>.\<close>

definition phonePattern :: "string \<Rightarrow> bool" where
  "phonePattern s =
     (case (case s of [] \<Rightarrow> [] | c # r \<Rightarrow> if c = CHR ''+'' then r else s) of
        [] \<Rightarrow> False
      | d # r \<Rightarrow> d \<in> set ''123456789'' \<and> length r \<le> 15 \<and> list_all isDigit r)"

definition allowedStatuses :: "string list" where
  "allowedStatuses = [''active'', ''inactive'', ''suspended'', ''graduated'']"

definition genders :: "string list" where
  "genders = [''male'', ''female'', ''other'']"

definition roles :: "string list" where
  "roles = [''admin'', ''student'']"

definition inRange :: "int \<Rightarrow> int \<Rightarrow> int \<Rightarrow> bool" where
  "inRange lo hi n = (lo \<le> n \<and> n \<le> hi)"

section \<open>Setters and validators of the Student schema\<close>

text \<open>
  The schema gives some of its strings a setter: \<open>trim\<close> on \<open>studentId\<close>, on the five
  subfields of \<open>address\<close>, on \<open>collegeName\<close>, \<open>department\<close>, \<open>course\<close> and
  \<open>specialization\<close>, and on the \<open>name\<close> and the \<open>relationship\<close> of the guardian
  and of the emergency contact; \<open>lowercase\<close> on the guardian's e-mail. The phone numbers
  have none. The setter of a path runs whenever a value is given to the path: when a document
  is constructed, when an update that holds the path is cast, and when a query compares the
  path with a value. The validators see what the setter returned.

  \<open>trim\<close> is \<open>String.prototype.trim\<close>, which removes the white space at both ends: the
  tab, the line feed, the vertical tab, the form feed, the carriage return, the space and the
  no-break space. \<open>lowercase\<close> is \<open>toLowerCase\<close>, which changes the letters A to Z
  and the capital letters of Latin-1.
\<close>

definition isSpace :: "char \<Rightarrow> bool" where
  "isSpace c =
     (c \<in> set [CHR 0x09, CHR 0x0A, CHR 0x0B, CHR 0x0C, CHR 0x0D, CHR 0x20, CHR 0xA0])"

definition trim :: "string \<Rightarrow> string" where
  "trim s = rev (dropWhile isSpace (rev (dropWhile isSpace s)))"

definition capitals :: string where
  "capitals = ''ABCDEFGHIJKLMNOPQRSTUVWXYZ''
     @ [CHR 0xC0, CHR 0xC1, CHR 0xC2, CHR 0xC3, CHR 0xC4, CHR 0xC5, CHR 0xC6, CHR 0xC7,
        CHR 0xC8, CHR 0xC9, CHR 0xCA, CHR 0xCB, CHR 0xCC, CHR 0xCD, CHR 0xCE, CHR 0xCF,
        CHR 0xD0, CHR 0xD1, CHR 0xD2, CHR 0xD3, CHR 0xD4, CHR 0xD5, CHR 0xD6,
        CHR 0xD8, CHR 0xD9, CHR 0xDA, CHR 0xDB, CHR 0xDC, CHR 0xDD, CHR 0xDE]"

definition smalls :: string where
  "smalls = ''abcdefghijklmnopqrstuvwxyz''
     @ [CHR 0xE0, CHR 0xE1, CHR 0xE2, CHR 0xE3, CHR 0xE4, CHR 0xE5, CHR 0xE6, CHR 0xE7,
        CHR 0xE8, CHR 0xE9, CHR 0xEA, CHR 0xEB, CHR 0xEC, CHR 0xED, CHR 0xEE, CHR 0xEF,
        CHR 0xF0, CHR 0xF1, CHR 0xF2, CHR 0xF3, CHR 0xF4, CHR 0xF5, CHR 0xF6,
        CHR 0xF8, CHR 0xF9, CHR 0xFA, CHR 0xFB, CHR 0xFC, CHR 0xFD, CHR 0xFE]"

definition lowerChar :: "char \<Rightarrow> char" where
  "lowerChar c = (case map_of (zip capitals smalls) c of None \<Rightarrow> c | Some l \<Rightarrow> l)"

definition lowercase :: "string \<Rightarrow> string" where
  "lowercase s = map lowerChar s"

definition castAddress :: "address \<Rightarrow> address" where
  "castAddress a =
     \<lparr>street = map_option trim (street a), city = map_option trim (city a),
      state = map_option trim (state a), zipCode = map_option trim (zipCode a),
      country = map_option trim (country a)\<rparr>"

definition castAcademicInfo :: "academicInfo \<Rightarrow> academicInfo" where
  "castAcademicInfo a =
     a\<lparr>collegeName := map_option trim (collegeName a),
       department := map_option trim (department a),
       course := map_option trim (course a),
       specialization := map_option trim (specialization a)\<rparr>"

definition castGuardianInfo :: "guardianInfo \<Rightarrow> guardianInfo" where
  "castGuardianInfo g =
     g\<lparr>g_name := map_option trim (g_name g),
       g_relationship := map_option trim (g_relationship g),
       g_email := map_option lowercase (g_email g)\<rparr>"

definition castEmergencyContact :: "emergencyContact \<Rightarrow> emergencyContact" where
  "castEmergencyContact c =
     c\<lparr>ec_name := map_option trim (ec_name c),
       ec_relationship := map_option trim (ec_relationship c)\<rparr>"

text \<open>
  The validators. \<open>required\<close> refuses a missing value and the empty string; \<open>match\<close>
  lets the empty string pass. On \<open>save\<close> every path of the document is validated. On an
  update with \<open>runValidators\<close> the paths the update holds are validated, and when the update
  sets one of the nested objects (\<open>address\<close>, \<open>academicInfo\<close>, \<open>guardianInfo\<close>,
  \<open>emergencyContact\<close>) so is every subpath the schema gives that object, a subpath the
  object lacks as \<open>undefined\<close>: a nested object is validated in an update as it is on
  \<open>save\<close>. The defaults of the schema are filled in only when a document is constructed.
\<close>

definition required :: "string option \<Rightarrow> bool" where
  "required v = (case v of None \<Rightarrow> False | Some s \<Rightarrow> s \<noteq> [])"

definition requiredNum :: "int option \<Rightarrow> bool" where
  "requiredNum v = (case v of None \<Rightarrow> False | Some n \<Rightarrow> True)"

definition matchV :: "(string \<Rightarrow> bool) \<Rightarrow> string option \<Rightarrow> bool" where
  "matchV p v = (case v of None \<Rightarrow> True | Some s \<Rightarrow> s = [] \<or> p s)"

definition enumV :: "string list \<Rightarrow> string option \<Rightarrow> bool" where
  "enumV xs v = (case v of None \<Rightarrow> True | Some s \<Rightarrow> s \<in> set xs)"

definition minV :: "'a::linorder \<Rightarrow> 'a option \<Rightarrow> bool" where
  "minV lo v = (case v of None \<Rightarrow> True | Some n \<Rightarrow> lo \<le> n)"

definition maxV :: "'a::linorder \<Rightarrow> 'a option \<Rightarrow> bool" where
  "maxV hi v = (case v of None \<Rightarrow> True | Some n \<Rightarrow> n \<le> hi)"

text \<open>
  The e-mail pattern of \<open>guardianInfo.email\<close>,
  \<open>^\w+([.-]?\w+)*@\w+([.-]?\w+)*(\.\w{2,3})+$\<close>. A string matches \<open>\w+([.-]?\w+)*\<close>
  when it is made of word characters, dots and hyphens, starts and ends with a word
  character and has no two separators in a row (\<open>wordRuns\<close>). The part after the \<open>@\<close>
  must also end with a dot and two or three word characters.
\<close>

definition isWord :: "char \<Rightarrow> bool" where
  "isWord c = (isAlnum c \<or> c = CHR ''_'')"

definition isSep :: "char \<Rightarrow> bool" where
  "isSep c = (c = CHR ''.'' \<or> c = CHR ''-'')"

fun wordRunsFrom :: "bool \<Rightarrow> string \<Rightarrow> bool" where
  "wordRunsFrom afterWord [] = afterWord"
| "wordRunsFrom afterWord (c # cs) =
     (if isWord c then wordRunsFrom True cs
      else if isSep c \<and> afterWord then wordRunsFrom False cs
      else False)"

definition wordRuns :: "string \<Rightarrow> bool" where
  "wordRuns s = wordRunsFrom False s"

definition lastRun :: "string \<Rightarrow> string" where
  "lastRun s = rev (takeWhile isWord (rev s))"

definition domainPattern :: "string \<Rightarrow> bool" where
  "domainPattern d =
     (wordRuns d \<and> length (lastRun d) \<in> {2, 3} \<and> length (lastRun d) + 1 < length d
      \<and> d ! (length d - length (lastRun d) - 1) = CHR ''.'')"

definition emailPattern :: "string \<Rightarrow> bool" where
  "emailPattern s =
     (let l = takeWhile (\<lambda>c. c \<noteq> CHR ''@'') s; r = dropWhile (\<lambda>c. c \<noteq> CHR ''@'') s
      in case r of [] \<Rightarrow> False | a # d \<Rightarrow> wordRuns l \<and> domainPattern d)"

definition statuses :: "string list" where
  "statuses = [''active'', ''inactive'', ''suspended'', ''graduated'', ''transferred'',
     ''dropped'']"

definition feeStructures :: "string list" where
  "feeStructures = [''general'', ''obc'', ''sc'', ''st'', ''ews'']"

definition validAddress :: "address \<Rightarrow> bool" where
  "validAddress a =
     (required (street a) \<and> required (city a) \<and> required (state a)
      \<and> required (zipCode a) \<and> required (country a))"

definition validAcademicInfo :: "academicInfo \<Rightarrow> bool" where
  "validAcademicInfo a =
     (required (collegeName a) \<and> required (department a) \<and> required (course a)
      \<and> requiredNum (year a) \<and> minV 1 (year a) \<and> maxV 5 (year a)
      \<and> requiredNum (semester a) \<and> minV 1 (semester a) \<and> maxV 8 (semester a)
      \<and> minV 0 (cgpa a) \<and> maxV 10 (cgpa a)
      \<and> minV 0 (totalCredits a) \<and> minV 0 (earnedCredits a)
      \<and> minV 0 (attendancePercentage a) \<and> maxV 100 (attendancePercentage a))"

definition validGuardianInfo :: "guardianInfo \<Rightarrow> bool" where
  "validGuardianInfo g =
     (required (g_name g) \<and> required (g_relationship g)
      \<and> required (g_phone g) \<and> matchV phonePattern (g_phone g)
      \<and> required (g_email g) \<and> matchV emailPattern (g_email g))"

definition validEmergencyContact :: "emergencyContact \<Rightarrow> bool" where
  "validEmergencyContact c =
     (required (ec_name c) \<and> required (ec_relationship c)
      \<and> required (ec_phone c) \<and> matchV phonePattern (ec_phone c))"

definition validFinancialInfo :: "financialInfo \<Rightarrow> bool" where
  "validFinancialInfo f =
     (enumV feeStructures (feeStructure f) \<and> minV 0 (totalFees f) \<and> minV 0 (paidFees f)
      \<and> minV 0 (scholarshipAmount f))"

definition validHostelInfo :: "hostelInfo \<Rightarrow> bool" where
  "validHostelInfo h = minV 0 (hostelFees h)"

definition validStudent :: "student \<Rightarrow> bool" where
  "validStudent st =
     (studentId st \<noteq> [] \<and> gender st \<in> set genders
      \<and> phone st \<noteq> [] \<and> phonePattern (phone st)
      \<and> validAddress (address st) \<and> validAcademicInfo (academicInfo st)
      \<and> validGuardianInfo (guardianInfo st)
      \<and> validEmergencyContact (emergencyContact st)
      \<and> (case financialInfo st of None \<Rightarrow> True | Some f \<Rightarrow> validFinancialInfo f)
      \<and> (case hostelInfo st of None \<Rightarrow> True | Some h \<Rightarrow> validHostelInfo h)
      \<and> status st \<in> set statuses)"

section \<open>The access gate\<close>

text \<open>
  \<open>protect\<close> reads the bearer token of the \<open>Authorization\<close> header, verifies it and
  loads its user; \<open>authorize\<close> compares the user's role with the roles a route allows.
  \<open>split(' ')[1]\<close> is the second piece of the header; a missing or empty piece is no token.
\<close>

fun splitSpace :: "string \<Rightarrow> string list" where
  "splitSpace [] = [[]]"
| "splitSpace (c # cs) =
     (if c = CHR '' '' then [] # splitSpace cs
      else (case splitSpace cs of [] \<Rightarrow> [[c]] | p # ps \<Rightarrow> (c # p) # ps))"

definition bearerToken :: "string option \<Rightarrow> string option" where
  "bearerToken hdr =
     (case hdr of
        None \<Rightarrow> None
      | Some h \<Rightarrow>
          if take 6 h = ''Bearer'' then
            (case splitSpace h of
               a # b # rest \<Rightarrow> if b = [] then None else Some b
             | _ \<Rightarrow> None)
          else None)"

definition protect :: "env \<Rightarrow> store \<Rightarrow> string option \<Rightarrow> 'a reply + user" where
  "protect e s hdr =
     (case bearerToken hdr of
        None \<Rightarrow> Inl (Failure 401 ''Access denied. No token provided.'')
      | Some token \<Rightarrow>
          (case jwtVerify e token of
             None \<Rightarrow> Inl (Failure 401 ''Token is not valid.'')
           | Some i \<Rightarrow>
               (case userById s i of
                  None \<Rightarrow> Inl (Failure 401 ''Token is not valid. User not found.'')
                | Some u \<Rightarrow>
                    if \<not> isActive u
                    then Inl (Failure 401 ''Account is deactivated. Please contact administrator.'')
                    else Inr u)))"

definition authorize :: "string list \<Rightarrow> user \<Rightarrow> 'a reply + user" where
  "authorize allowed u =
     (if role u \<in> set allowed then Inr u
      else Inl (Failure 403
        (''User role '' @ [CHR 0x27] @ role u @ [CHR 0x27]
          @ '' is not authorized to access this route'')))"

definition gate :: "env \<Rightarrow> store \<Rightarrow> string list \<Rightarrow> string option \<Rightarrow> 'a reply + user" where
  "gate e s allowed hdr =
     (case protect e s hdr of Inl r \<Rightarrow> Inl r | Inr u \<Rightarrow> authorize allowed u)"

definition adminOnly :: "string list" where
  "adminOnly = [''admin'']"

definition studentOnly :: "string list" where
  "studentOnly = [''student'']"

definition bothRoles :: "string list" where
  "bothRoles = [''admin'', ''student'']"

section \<open>Writes to the collections\<close>

text \<open>
  Modelled from the spec: \<open>user.save()\<close> is a method of the User model, which is not among
  the sources. The spec says that the stored password is a hash and that the store enforces
  the uniqueness of \<open>username\<close> and \<open>email\<close>; a save that breaks it throws. The
  validators of the User schema are not known: a write to a User is taken to pass them.
\<close>

definition userTaken :: "store \<Rightarrow> string \<Rightarrow> string \<Rightarrow> bool" where
  "userTaken s em un = list_ex (\<lambda>u. email u = em \<or> username u = un) (users s)"

definition saveUser :: "env \<Rightarrow> store \<Rightarrow> user \<Rightarrow> store option" where
  "saveUser e s u =
     (if userTaken s (email u) (username u) then None
      else Some (s\<lparr>users := users s @ [u\<lparr>password := hashPassword e (password u)\<rparr>],
                   nextId := Suc (nextId s)\<rparr>))"

text \<open>
  \<open>student.save()\<close> runs the validators of the Student schema and the unique indexes on
  \<open>studentId\<close> and \<open>userId\<close>; it throws when one of them fails. The document it is
  given has been through the setters when it was constructed (\<open>newStudent\<close> below).
\<close>

definition saveStudent :: "store \<Rightarrow> student \<Rightarrow> store option" where
  "saveStudent s st =
     (if validStudent st
         \<and> \<not> list_ex (\<lambda>x. studentId x = studentId st \<or> userId x = userId st) (students s)
      then Some (s\<lparr>students := students s @ [st], nextId := Suc (nextId s)\<rparr>)
      else None)"

text \<open>
  \<open>new Student({...})\<close>: the schema fills in its defaults and runs its setters on the
  values of the new document.
\<close>

definition orElse :: "'a option \<Rightarrow> 'a option \<Rightarrow> 'a option" where
  "orElse new old = (case new of None \<Rightarrow> old | Some v \<Rightarrow> Some v)"

definition defaultFinancial :: financialInfo where
  "defaultFinancial = \<lparr>feeStructure = Some ''general'', totalFees = Some 0,
     paidFees = Some 0, scholarshipAmount = Some 0, lastPaymentDate = None\<rparr>"

definition defaultHostel :: hostelInfo where
  "defaultHostel = \<lparr>hostelName = Some [], roomNumber = Some [], hostelFees = Some 0,
     isHostelite = Some False\<rparr>"

definition newStudent ::
  "date \<Rightarrow> objectId \<Rightarrow> objectId \<Rightarrow> string \<Rightarrow> date \<Rightarrow> string \<Rightarrow> string \<Rightarrow> address
   \<Rightarrow> academicInfo \<Rightarrow> guardianInfo \<Rightarrow> emergencyContact \<Rightarrow> student" where
  "newStudent now i uid sid dob gen ph addr acad guard contact =
     \<lparr>s_id = i, userId = uid, studentId = trim sid, dateOfBirth = dob, gender = gen,
      phone = ph,
      address = castAddress (addr\<lparr>country := orElse (country addr) (Some ''India'')\<rparr>),
      academicInfo = castAcademicInfo (acad\<lparr>
        specialization := orElse (specialization acad) (Some []),
        cgpa := orElse (cgpa acad) (Some 0),
        totalCredits := orElse (totalCredits acad) (Some 0),
        earnedCredits := orElse (earnedCredits acad) (Some 0),
        attendancePercentage := orElse (attendancePercentage acad) (Some 0)\<rparr>),
      guardianInfo = castGuardianInfo guard, emergencyContact = castEmergencyContact contact,
      financialInfo = Some defaultFinancial, hostelInfo = Some defaultHostel,
      status = ''active'', enrollmentDate = now, graduationDate = None, createdAt = now\<rparr>"

section \<open>Registration and login\<close>

text \<open>
  \<open>POST /api/auth/register\<close>. The fields the route validates are strings (a missing field
  is the empty string, which every check of the route refuses); \<open>studentData\<close> is optional
  throughout.
\<close>

record studentData =
  sd_studentId :: "string option"
  sd_dateOfBirth :: "date option"
  sd_gender :: "string option"
  sd_phone :: "string option"
  sd_address :: "address option"
  sd_academicInfo :: "academicInfo option"
  sd_guardianInfo :: "guardianInfo option"
  sd_emergencyContact :: "emergencyContact option"

record registerReq =
  rq_username :: string
  rq_email :: string
  rq_password :: string
  rq_firstName :: string
  rq_lastName :: string
  rq_role :: string
  rq_studentData :: "studentData option"

definition validateUserFields ::
  "env \<Rightarrow> string \<Rightarrow> string \<Rightarrow> string \<Rightarrow> string \<Rightarrow> string \<Rightarrow> string \<Rightarrow> string list" where
  "validateUserFields e un em pw fname lname rl =
     check (3 \<le> length un \<and> length un \<le> 30) ''Username must be between 3 and 30 characters''
     @ check (isAlphanumeric un) ''Username must contain only letters and numbers''
     @ check (isEmail e em) ''Please provide a valid email''
     @ check (6 \<le> length pw) ''Password must be at least 6 characters long''
     @ check (fname \<noteq> []) ''First name is required''
     @ check (lname \<noteq> []) ''Last name is required''
     @ check (rl \<in> set roles) ''Role must be either admin or student''"

definition nonEmpty :: "string option \<Rightarrow> string \<Rightarrow> string" where
  "nonEmpty v fallback =
     (case v of None \<Rightarrow> fallback | Some s \<Rightarrow> if list_all isSpace s then fallback else s)"

fun showNat :: "nat \<Rightarrow> string" where
  "showNat n =
     (if n < 10 then [''0123456789'' ! n]
      else showNat (n div 10) @ [''0123456789'' ! (n mod 10)])"

definition fallbackAddress :: address where
  "fallbackAddress = \<lparr>street = Some ''N/A'', city = Some ''N/A'', state = Some ''N/A'',
     zipCode = Some ''000000'', country = Some ''India''\<rparr>"

definition fallbackAcademic :: academicInfo where
  "fallbackAcademic = \<lparr>collegeName = Some ''N/A'', department = Some ''N/A'',
     course = Some ''N/A'', specialization = None, year = Some 1, semester = Some 1,
     cgpa = Some 0, totalCredits = None, earnedCredits = None,
     attendancePercentage = None\<rparr>"

definition fallbackGuardian :: guardianInfo where
  "fallbackGuardian = \<lparr>g_name = Some ''N/A'', g_relationship = Some ''N/A'',
     g_phone = Some ''0000000000'', g_email = Some ''na@example.com''\<rparr>"

definition fallbackContact :: emergencyContact where
  "fallbackContact = \<lparr>ec_name = Some ''N/A'', ec_relationship = Some ''N/A'',
     ec_phone = Some ''0000000000''\<rparr>"

definition noStudentData :: studentData where
  "noStudentData = \<lparr>sd_studentId = None, sd_dateOfBirth = None, sd_gender = None,
     sd_phone = None, sd_address = None, sd_academicInfo = None, sd_guardianInfo = None,
     sd_emergencyContact = None\<rparr>"

definition registeredStudent :: "date \<Rightarrow> objectId \<Rightarrow> objectId \<Rightarrow> studentData \<Rightarrow> student" where
  "registeredStudent now i uid sd =
     newStudent now i uid
       (nonEmpty (sd_studentId sd) (''STU'' @ showNat now))
       (case sd_dateOfBirth sd of None \<Rightarrow> now | Some d \<Rightarrow> d)
       (nonEmpty (sd_gender sd) ''other'')
       (nonEmpty (sd_phone sd) ''0000000000'')
       (case sd_address sd of None \<Rightarrow> fallbackAddress | Some a \<Rightarrow> a)
       (case sd_academicInfo sd of None \<Rightarrow> fallbackAcademic | Some a \<Rightarrow> a)
       (case sd_guardianInfo sd of None \<Rightarrow> fallbackGuardian | Some g \<Rightarrow> g)
       (case sd_emergencyContact sd of None \<Rightarrow> fallbackContact | Some c \<Rightarrow> c)"

text \<open>
  The "smart authentication logic": \<open>isFirstAdmin\<close> is set when the role is admin and no
  admin is counted, and also when the count itself throws. \<open>registerAuth\<close> is the check
  that follows for a caller who is neither the first admin nor registering a student; it
  does not look at \<open>isActive\<close>.
\<close>

definition isFirstAdmin :: "env \<Rightarrow> store \<Rightarrow> string \<Rightarrow> bool" where
  "isFirstAdmin e s rl =
     (rl = ''admin'' \<and> (adminCountThrows e \<or> countAdmins s = 0))"

definition registerAuth :: "env \<Rightarrow> store \<Rightarrow> string option \<Rightarrow> 'a reply option" where
  "registerAuth e s hdr =
     (case bearerToken hdr of
        None \<Rightarrow> Some (Failure 401 ''Authentication required to register new users'')
      | Some token \<Rightarrow>
          (case jwtVerify e token of
             None \<Rightarrow> Some (Failure 401 ''Invalid authentication token'')
           | Some i \<Rightarrow>
               (case userById s i of
                  None \<Rightarrow> Some (Failure 403 ''Only admins can register new users'')
                | Some u \<Rightarrow>
                    if role u \<noteq> ''admin''
                    then Some (Failure 403 ''Only admins can register new users'')
                    else None)))"

definition registerWrite ::
  "env \<Rightarrow> date \<Rightarrow> store \<Rightarrow> registerReq \<Rightarrow> (user \<times> string \<times> bool) reply \<times> store" where
  "registerWrite e now s rq =
     (let u = \<lparr>u_id = nextId s, username = rq_username rq, email = rq_email rq,
                password = rq_password rq, firstName = rq_firstName rq,
                lastName = rq_lastName rq, role = rq_role rq,
                isActive = isActiveDefault e, lastLogin = None\<rparr>;
          first = isFirstAdmin e s (rq_role rq)
      in case saveUser e s u of
           None \<Rightarrow> (ServerError ''Server error during registration'', s)
         | Some s1 \<Rightarrow>
             (case (if rq_role rq = ''student''
                    then saveStudent s1 (registeredStudent now (nextId s1) (u_id u)
                           (case rq_studentData rq of None \<Rightarrow> noStudentData | Some sd \<Rightarrow> sd))
                    else Some s1) of
                None \<Rightarrow> (ServerError ''Server error during registration'', s1)
              | Some s2 \<Rightarrow>
                  if \<not> jwtSecretSet e
                  then (Failure 500 ''Server configuration error: JWT_SECRET missing'', s2)
                  else (Success 201
                          (Some (if first then ''First admin user registered successfully''
                                 else ''User registered successfully''))
                          (u\<lparr>password := hashPassword e (password u)\<rparr>,
                           jwtSign e (u_id u), first),
                        s2)))"

definition register ::
  "env \<Rightarrow> date \<Rightarrow> store \<Rightarrow> string option \<Rightarrow> registerReq
   \<Rightarrow> (user \<times> string \<times> bool) reply \<times> store" where
  "register e now s hdr rq =
     (if readyState e \<noteq> 1 then (Failure 500 ''Database connection error'', s)
      else if validateUserFields e (rq_username rq) (rq_email rq) (rq_password rq)
                (rq_firstName rq) (rq_lastName rq) (rq_role rq) \<noteq> []
      then (ValidationFailed
              (validateUserFields e (rq_username rq) (rq_email rq) (rq_password rq)
                (rq_firstName rq) (rq_lastName rq) (rq_role rq)), s)
      else case (if \<not> isFirstAdmin e s (rq_role rq) \<and> rq_role rq \<noteq> ''student''
                 then registerAuth e s hdr else None) of
             Some refusal \<Rightarrow> (refusal, s)
           | None \<Rightarrow>
               if userTaken s (rq_email rq) (rq_username rq)
               then (Failure 400 ''User with this email or username already exists'', s)
               else registerWrite e now s rq)"

text \<open>\<open>POST /api/auth/login\<close>.\<close>

definition userByEmail :: "store \<Rightarrow> string \<Rightarrow> user option" where
  "userByEmail s em = find (\<lambda>u. email u = em) (users s)"

definition setUser :: "store \<Rightarrow> objectId \<Rightarrow> (user \<Rightarrow> user) \<Rightarrow> store" where
  "setUser s i f = s\<lparr>users := updateFirst (\<lambda>u. u_id u = i) f (users s)\<rparr>"

definition login ::
  "env \<Rightarrow> date \<Rightarrow> store \<Rightarrow> string \<Rightarrow> string \<Rightarrow> (user \<times> string) reply \<times> store" where
  "login e now s em pw =
     (if check (isEmail e em) ''Please provide a valid email''
         @ check (pw \<noteq> []) ''Password is required'' \<noteq> []
      then (ValidationFailed (check (isEmail e em) ''Please provide a valid email''
              @ check (pw \<noteq> []) ''Password is required''), s)
      else case userByEmail s em of
             None \<Rightarrow> (Failure 401 ''Invalid credentials'', s)
           | Some u \<Rightarrow>
               if \<not> isActive u
               then (Failure 401 ''Account is deactivated. Please contact administrator.'', s)
               else if \<not> comparePassword e (password u) pw
               then (Failure 401 ''Invalid credentials'', s)
               else (Success 200 (Some ''Login successful'')
                       (u\<lparr>lastLogin := Some now\<rparr>, jwtSign e (u_id u)),
                     setUser s (u_id u) (\<lambda>x. x\<lparr>lastLogin := Some now\<rparr>)))"

section \<open>Own account\<close>

text \<open>
  \<open>PUT /api/auth/profile\<close> and \<open>POST /api/auth/change-password\<close>, behind the gate for
  both roles; \<open>ru\<close> is the user the gate attached to the request. A string is truthy when
  it is present and not empty. The data of a response hold the documents themselves: the
  projections the handlers apply to them are not modelled.
\<close>

record profileReq =
  pr_firstName :: "string option"
  pr_lastName :: "string option"
  pr_email :: "string option"

definition validateProfile :: "env \<Rightarrow> string option \<Rightarrow> string option \<Rightarrow> string option \<Rightarrow> string list" where
  "validateProfile e fname lname em =
     optional fname (\<lambda>v. check (v \<noteq> []) ''First name cannot be empty'')
     @ optional lname (\<lambda>v. check (v \<noteq> []) ''Last name cannot be empty'')
     @ optional em (\<lambda>v. check (isEmail e v) ''Please provide a valid email'')"

definition orStr :: "string option \<Rightarrow> string \<Rightarrow> string" where
  "orStr v d = (if str v \<noteq> [] then str v else d)"

definition updateAuthProfile :: "env \<Rightarrow> store \<Rightarrow> user \<Rightarrow> profileReq \<Rightarrow> user reply \<times> store" where
  "updateAuthProfile e s ru rq =
     (if validateProfile e (pr_firstName rq) (pr_lastName rq) (pr_email rq) \<noteq> []
      then (ValidationFailed
              (validateProfile e (pr_firstName rq) (pr_lastName rq) (pr_email rq)), s)
      else if str (pr_email rq) \<noteq> [] \<and> str (pr_email rq) \<noteq> email ru
              \<and> userByEmail s (str (pr_email rq)) \<noteq> None
      then (Failure 400 ''Email is already taken'', s)
      else case userById s (u_id ru) of
             None \<Rightarrow> (ServerError ''Server error while updating profile'', s)
           | Some u \<Rightarrow>
               (Success 200 (Some ''Profile updated successfully'')
                  (u\<lparr>firstName := orStr (pr_firstName rq) (firstName ru),
                     lastName := orStr (pr_lastName rq) (lastName ru),
                     email := orStr (pr_email rq) (email ru)\<rparr>),
                setUser s (u_id ru)
                  (\<lambda>x. x\<lparr>firstName := orStr (pr_firstName rq) (firstName ru),
                          lastName := orStr (pr_lastName rq) (lastName ru),
                          email := orStr (pr_email rq) (email ru)\<rparr>)))"

definition changePassword :: "env \<Rightarrow> store \<Rightarrow> user \<Rightarrow> string \<Rightarrow> string \<Rightarrow> unit reply \<times> store" where
  "changePassword e s ru current new =
     (if check (current \<noteq> []) ''Current password is required''
         @ check (6 \<le> length new) ''New password must be at least 6 characters long'' \<noteq> []
      then (ValidationFailed (check (current \<noteq> []) ''Current password is required''
              @ check (6 \<le> length new) ''New password must be at least 6 characters long''), s)
      else case userById s (u_id ru) of
             None \<Rightarrow> (ServerError ''Server error while changing password'', s)
           | Some u \<Rightarrow>
               if \<not> comparePassword e (password u) current
               then (Failure 400 ''Current password is incorrect'', s)
               else (Success 200 (Some ''Password changed successfully'') (),
                     setUser s (u_id ru) (\<lambda>x. x\<lparr>password := hashPassword e new\<rparr>)))"

section \<open>User management by the admin\<close>

text \<open>\<open>POST\<close>, \<open>PUT\<close> and \<open>DELETE /api/admin/users\<close>.\<close>

definition createUser ::
  "env \<Rightarrow> store \<Rightarrow> string \<Rightarrow> string \<Rightarrow> string \<Rightarrow> string \<Rightarrow> string \<Rightarrow> string
   \<Rightarrow> user reply \<times> store" where
  "createUser e s un em pw fname lname rl =
     (if validateUserFields e un em pw fname lname rl \<noteq> []
      then (ValidationFailed (validateUserFields e un em pw fname lname rl), s)
      else if userTaken s em un
      then (Failure 400 ''User with this email or username already exists'', s)
      else case saveUser e s \<lparr>u_id = nextId s, username = un, email = em, password = pw,
                  firstName = fname, lastName = lname, role = rl, isActive = True,
                  lastLogin = None\<rparr> of
             None \<Rightarrow> (ServerError ''Server error while creating user'', s)
           | Some s1 \<Rightarrow>
               (Success 201 (Some ''User created successfully'')
                  \<lparr>u_id = nextId s, username = un, email = em,
                   password = hashPassword e pw, firstName = fname, lastName = lname,
                   role = rl, isActive = True, lastLogin = None\<rparr>, s1))"

record userUpdateReq =
  uu_firstName :: "string option"
  uu_lastName :: "string option"
  uu_email :: "string option"
  uu_role :: "string option"
  uu_isActive :: "bool option"

definition userUpdateData :: "userUpdateReq \<Rightarrow> user \<Rightarrow> user" where
  "userUpdateData rq u =
     u\<lparr>firstName := orStr (uu_firstName rq) (firstName u),
       lastName := orStr (uu_lastName rq) (lastName u),
       email := orStr (uu_email rq) (email u),
       role := orStr (uu_role rq) (role u),
       isActive := (case uu_isActive rq of None \<Rightarrow> isActive u | Some b \<Rightarrow> b)\<rparr>"

definition updateUser :: "env \<Rightarrow> store \<Rightarrow> objectId \<Rightarrow> userUpdateReq \<Rightarrow> user reply \<times> store" where
  "updateUser e s i rq =
     (if validateProfile e (uu_firstName rq) (uu_lastName rq) (uu_email rq)
         @ optional (uu_role rq)
             (\<lambda>v. check (v \<in> set roles) ''Role must be either admin or student'') \<noteq> []
      then (ValidationFailed
              (validateProfile e (uu_firstName rq) (uu_lastName rq) (uu_email rq)
               @ optional (uu_role rq)
                   (\<lambda>v. check (v \<in> set roles) ''Role must be either admin or student'')), s)
      else case userById s i of
             None \<Rightarrow> (Failure 404 ''User not found'', s)
           | Some u \<Rightarrow>
               if str (uu_email rq) \<noteq> [] \<and> str (uu_email rq) \<noteq> email u
                  \<and> userByEmail s (str (uu_email rq)) \<noteq> None
               then (Failure 400 ''User with this email already exists'', s)
               else (Success 200 (Some ''User updated successfully'') (userUpdateData rq u),
                     setUser s i (userUpdateData rq)))"

definition deleteUser :: "store \<Rightarrow> objectId \<Rightarrow> unit reply \<times> store" where
  "deleteUser s i =
     (case userById s i of
        None \<Rightarrow> (Failure 404 ''User not found'', s)
      | Some u \<Rightarrow>
          if role u = ''admin'' \<and> countAdmins s \<le> 1
          then (Failure 400 ''Cannot delete the last admin user'', s)
          else (Success 200 (Some ''User deleted successfully'') (),
                s\<lparr>users := deleteFirst (\<lambda>x. u_id x = i) (users s),
                  students := (if role u = ''student''
                               then deleteFirst (\<lambda>st. userId st = i) (students s)
                               else students s)\<rparr>))"

section \<open>Updates of a Student\<close>

text \<open>
  The update object a handler builds (\<open>studentUpdateData\<close>, \<open>updateData\<close>): a key that is
  missing leaves the stored path alone, a key that is present replaces it.
  \<open>{ ...stored, ...supplied }\<close> keeps every key of \<open>stored\<close> that \<open>supplied\<close> lacks.
\<close>

record studentUpdate =
  su_phone :: "string option"
  su_address :: "address option"
  su_academicInfo :: "academicInfo option"
  su_guardianInfo :: "guardianInfo option"
  su_emergencyContact :: "emergencyContact option"
  su_status :: "string option"
  su_graduationDate :: "date option"

definition noUpdate :: studentUpdate where
  "noUpdate = \<lparr>su_phone = None, su_address = None, su_academicInfo = None,
     su_guardianInfo = None, su_emergencyContact = None, su_status = None,
     su_graduationDate = None\<rparr>"

definition mergeAddress :: "address \<Rightarrow> address \<Rightarrow> address" where
  "mergeAddress stored supplied =
     \<lparr>street = orElse (street supplied) (street stored),
      city = orElse (city supplied) (city stored),
      state = orElse (state supplied) (state stored),
      zipCode = orElse (zipCode supplied) (zipCode stored),
      country = orElse (country supplied) (country stored)\<rparr>"

definition mergeAcademicInfo :: "academicInfo \<Rightarrow> academicInfo \<Rightarrow> academicInfo" where
  "mergeAcademicInfo stored supplied =
     \<lparr>collegeName = orElse (collegeName supplied) (collegeName stored),
      department = orElse (department supplied) (department stored),
      course = orElse (course supplied) (course stored),
      specialization = orElse (specialization supplied) (specialization stored),
      year = orElse (year supplied) (year stored),
      semester = orElse (semester supplied) (semester stored),
      cgpa = orElse (cgpa supplied) (cgpa stored),
      totalCredits = orElse (totalCredits supplied) (totalCredits stored),
      earnedCredits = orElse (earnedCredits supplied) (earnedCredits stored),
      attendancePercentage =
        orElse (attendancePercentage supplied) (attendancePercentage stored)\<rparr>"

definition mergeGuardianInfo :: "guardianInfo \<Rightarrow> guardianInfo \<Rightarrow> guardianInfo" where
  "mergeGuardianInfo stored supplied =
     \<lparr>g_name = orElse (g_name supplied) (g_name stored),
      g_relationship = orElse (g_relationship supplied) (g_relationship stored),
      g_phone = orElse (g_phone supplied) (g_phone stored),
      g_email = orElse (g_email supplied) (g_email stored)\<rparr>"

definition mergeEmergencyContact :: "emergencyContact \<Rightarrow> emergencyContact \<Rightarrow> emergencyContact" where
  "mergeEmergencyContact stored supplied =
     \<lparr>ec_name = orElse (ec_name supplied) (ec_name stored),
      ec_relationship = orElse (ec_relationship supplied) (ec_relationship stored),
      ec_phone = orElse (ec_phone supplied) (ec_phone stored)\<rparr>"

definition applyUpdate :: "studentUpdate \<Rightarrow> student \<Rightarrow> student" where
  "applyUpdate d st =
     st\<lparr>phone := (case su_phone d of None \<Rightarrow> phone st | Some v \<Rightarrow> v),
        address := (case su_address d of None \<Rightarrow> address st | Some v \<Rightarrow> v),
        academicInfo := (case su_academicInfo d of None \<Rightarrow> academicInfo st | Some v \<Rightarrow> v),
        guardianInfo := (case su_guardianInfo d of None \<Rightarrow> guardianInfo st | Some v \<Rightarrow> v),
        emergencyContact :=
          (case su_emergencyContact d of None \<Rightarrow> emergencyContact st | Some v \<Rightarrow> v),
        status := (case su_status d of None \<Rightarrow> status st | Some v \<Rightarrow> v),
        graduationDate :=
          (case su_graduationDate d of None \<Rightarrow> graduationDate st | Some v \<Rightarrow> Some v)\<rparr>"

text \<open>
  \<open>findByIdAndUpdate\<close> casts the update, which runs the setters on the values it holds
  (\<open>castUpdate\<close>); with \<open>runValidators\<close> it then validates the cast update
  (\<open>validUpdate\<close>) and writes it when it passes.
\<close>

definition castUpdate :: "studentUpdate \<Rightarrow> studentUpdate" where
  "castUpdate d =
     d\<lparr>su_address := map_option castAddress (su_address d),
       su_academicInfo := map_option castAcademicInfo (su_academicInfo d),
       su_guardianInfo := map_option castGuardianInfo (su_guardianInfo d),
       su_emergencyContact := map_option castEmergencyContact (su_emergencyContact d)\<rparr>"

definition validUpdate :: "studentUpdate \<Rightarrow> bool" where
  "validUpdate d =
     ((case su_phone d of None \<Rightarrow> True
       | Some p \<Rightarrow> required (Some p) \<and> matchV phonePattern (Some p))
      \<and> (case su_address d of None \<Rightarrow> True | Some a \<Rightarrow> validAddress a)
      \<and> (case su_academicInfo d of None \<Rightarrow> True | Some a \<Rightarrow> validAcademicInfo a)
      \<and> (case su_guardianInfo d of None \<Rightarrow> True | Some g \<Rightarrow> validGuardianInfo g)
      \<and> (case su_emergencyContact d of None \<Rightarrow> True | Some c \<Rightarrow> validEmergencyContact c)
      \<and> enumV statuses (su_status d))"

definition setStudent :: "store \<Rightarrow> objectId \<Rightarrow> (student \<Rightarrow> student) \<Rightarrow> store" where
  "setStudent s i f = s\<lparr>students := updateFirst (\<lambda>st. s_id st = i) f (students s)\<rparr>"

section \<open>The student's own profile\<close>

text \<open>\<open>PUT /api/student/profile\<close>, behind the gate for students.\<close>

record ownProfileReq =
  op_phone :: "string option"
  op_address :: "address option"
  op_emergencyContact :: "emergencyContact option"

definition validateOwnProfile :: "ownProfileReq \<Rightarrow> string list" where
  "validateOwnProfile rq =
     optional (op_phone rq) (\<lambda>v. check (phonePattern v) ''Please provide a valid phone number'')
     @ optional (chain (op_address rq) street)
         (\<lambda>v. check (v \<noteq> []) ''Street address cannot be empty'')
     @ optional (chain (op_address rq) city) (\<lambda>v. check (v \<noteq> []) ''City cannot be empty'')
     @ optional (chain (op_address rq) state) (\<lambda>v. check (v \<noteq> []) ''State cannot be empty'')
     @ optional (chain (op_address rq) zipCode)
         (\<lambda>v. check (v \<noteq> []) ''ZIP code cannot be empty'')
     @ optional (chain (op_emergencyContact rq) ec_name)
         (\<lambda>v. check (v \<noteq> []) ''Emergency contact name cannot be empty'')
     @ optional (chain (op_emergencyContact rq) ec_phone)
         (\<lambda>v. check (phonePattern v) ''Please provide a valid emergency contact phone number'')"

definition ownUpdateData :: "student \<Rightarrow> ownProfileReq \<Rightarrow> studentUpdate" where
  "ownUpdateData st rq =
     noUpdate\<lparr>
       su_phone := (if str (op_phone rq) \<noteq> [] then op_phone rq else None),
       su_address := map_option (mergeAddress (address st)) (op_address rq),
       su_emergencyContact :=
         map_option (mergeEmergencyContact (emergencyContact st)) (op_emergencyContact rq)\<rparr>"

definition updateOwnProfile :: "store \<Rightarrow> user \<Rightarrow> ownProfileReq \<Rightarrow> student reply \<times> store" where
  "updateOwnProfile s ru rq =
     (if validateOwnProfile rq \<noteq> [] then (ValidationFailed (validateOwnProfile rq), s)
      else case studentByUserId s (u_id ru) of
             None \<Rightarrow> (Failure 404 ''Student profile not found'', s)
           | Some st \<Rightarrow>
               if \<not> validUpdate (castUpdate (ownUpdateData st rq))
               then (ServerError ''Server error while updating profile'', s)
               else (case studentById s (s_id st) of
                       None \<Rightarrow> (ServerError ''Server error while updating profile'', s)
                     | Some cur \<Rightarrow>
                         (Success 200 (Some ''Profile updated successfully'')
                            (applyUpdate (castUpdate (ownUpdateData st rq)) cur),
                          setStudent s (s_id st)
                            (applyUpdate (castUpdate (ownUpdateData st rq))))))"

section \<open>Student management by the admin\<close>

text \<open>
  \<open>POST /api/admin/students\<close>. \<open>cs_dateOfBirth\<close> is the date the ISO 8601 string of the
  request denotes, \<open>None\<close> when the string is missing or is not one.
  \<open>Student.findOne({ studentId })\<close> compares the stored identifiers with the trimmed one:
  the setter of the path runs on the value of the query.
\<close>

record createStudentReq =
  cs_username :: string
  cs_email :: string
  cs_password :: string
  cs_firstName :: string
  cs_lastName :: string
  cs_studentId :: string
  cs_dateOfBirth :: "date option"
  cs_gender :: string
  cs_phone :: string
  cs_address :: address
  cs_academicInfo :: academicInfo
  cs_guardianInfo :: guardianInfo
  cs_emergencyContact :: emergencyContact

definition intIn :: "int \<Rightarrow> int \<Rightarrow> int option \<Rightarrow> bool" where
  "intIn lo hi v = (case v of None \<Rightarrow> False | Some n \<Rightarrow> inRange lo hi n)"

definition validateCreateStudent :: "env \<Rightarrow> createStudentReq \<Rightarrow> string list" where
  "validateCreateStudent e rq =
     check (3 \<le> length (cs_username rq) \<and> length (cs_username rq) \<le> 30)
       ''Username must be between 3 and 30 characters''
     @ check (isEmail e (cs_email rq)) ''Please provide a valid email''
     @ check (6 \<le> length (cs_password rq)) ''Password must be at least 6 characters long''
     @ check (cs_firstName rq \<noteq> []) ''First name is required''
     @ check (cs_lastName rq \<noteq> []) ''Last name is required''
     @ check (cs_studentId rq \<noteq> []) ''Student ID is required''
     @ check (cs_dateOfBirth rq \<noteq> None) ''Please provide a valid date of birth''
     @ check (cs_gender rq \<in> set genders) ''Gender must be male, female, or other''
     @ check (phonePattern (cs_phone rq)) ''Please provide a valid phone number''
     @ check (str (street (cs_address rq)) \<noteq> []) ''Street address is required''
     @ check (str (city (cs_address rq)) \<noteq> []) ''City is required''
     @ check (str (state (cs_address rq)) \<noteq> []) ''State is required''
     @ check (str (zipCode (cs_address rq)) \<noteq> []) ''ZIP code is required''
     @ check (str (collegeName (cs_academicInfo rq)) \<noteq> []) ''College name is required''
     @ check (str (department (cs_academicInfo rq)) \<noteq> []) ''Department is required''
     @ check (str (course (cs_academicInfo rq)) \<noteq> []) ''Course is required''
     @ check (intIn 1 5 (year (cs_academicInfo rq))) ''Year must be between 1 and 5''
     @ check (intIn 1 8 (semester (cs_academicInfo rq))) ''Semester must be between 1 and 8''
     @ optional (totalCredits (cs_academicInfo rq))
         (\<lambda>v. check (0 \<le> v) ''Total credits must be a positive number'')
     @ optional (earnedCredits (cs_academicInfo rq))
         (\<lambda>v. check (0 \<le> v) ''Earned credits must be a positive number'')
     @ optional (attendancePercentage (cs_academicInfo rq))
         (\<lambda>v. check (0 \<le> v \<and> v \<le> 100) ''Attendance percentage must be between 0 and 100'')
     @ check (str (g_name (cs_guardianInfo rq)) \<noteq> []) ''Guardian name is required''
     @ check (str (g_relationship (cs_guardianInfo rq)) \<noteq> [])
         ''Relationship with guardian is required''
     @ check (phonePattern (str (g_phone (cs_guardianInfo rq))))
         ''Please provide a valid guardian phone number''
     @ check (isEmail e (str (g_email (cs_guardianInfo rq))))
         ''Please provide a valid guardian email''
     @ check (str (ec_name (cs_emergencyContact rq)) \<noteq> [])
         ''Emergency contact name is required''
     @ check (str (ec_relationship (cs_emergencyContact rq)) \<noteq> [])
         ''Relationship with emergency contact is required''
     @ check (phonePattern (str (ec_phone (cs_emergencyContact rq))))
         ''Please provide a valid emergency contact phone number''"

definition createdUser :: "env \<Rightarrow> store \<Rightarrow> createStudentReq \<Rightarrow> user" where
  "createdUser e s rq =
     \<lparr>u_id = nextId s, username = cs_username rq, email = cs_email rq,
      password = cs_password rq, firstName = cs_firstName rq, lastName = cs_lastName rq,
      role = ''student'', isActive = isActiveDefault e, lastLogin = None\<rparr>"

definition createdStudent :: "date \<Rightarrow> store \<Rightarrow> objectId \<Rightarrow> createStudentReq \<Rightarrow> student" where
  "createdStudent now s1 uid rq =
     newStudent now (nextId s1) uid (cs_studentId rq)
       (case cs_dateOfBirth rq of None \<Rightarrow> now | Some d \<Rightarrow> d)
       (cs_gender rq) (cs_phone rq) (cs_address rq) (cs_academicInfo rq)
       (cs_guardianInfo rq) (cs_emergencyContact rq)"

definition adminCreateStudent ::
  "env \<Rightarrow> date \<Rightarrow> store \<Rightarrow> createStudentReq \<Rightarrow> student reply \<times> store" where
  "adminCreateStudent e now s rq =
     (if validateCreateStudent e rq \<noteq> []
      then (ValidationFailed (validateCreateStudent e rq), s)
      else if userTaken s (cs_email rq) (cs_username rq)
      then (Failure 400 ''User with this email or username already exists'', s)
      else if list_ex (\<lambda>st. studentId st = trim (cs_studentId rq)) (students s)
      then (Failure 400 ''Student with this ID already exists'', s)
      else case saveUser e s (createdUser e s rq) of
             None \<Rightarrow> (ServerError ''Server error while creating student'', s)
           | Some s1 \<Rightarrow>
               (case saveStudent s1 (createdStudent now s1 (nextId s) rq) of
                  None \<Rightarrow> (ServerError ''Server error while creating student'', s1)
                | Some s2 \<Rightarrow>
                    (Success 201 (Some ''Student created successfully'')
                       (createdStudent now s1 (nextId s) rq), s2)))"

text \<open>\<open>PUT /api/admin/students/:id\<close>.\<close>

record updateStudentReq =
  us_firstName :: "string option"
  us_lastName :: "string option"
  us_email :: "string option"
  us_phone :: "string option"
  us_address :: "address option"
  us_academicInfo :: "academicInfo option"
  us_guardianInfo :: "guardianInfo option"
  us_emergencyContact :: "emergencyContact option"
  us_status :: "string option"

definition validateUpdateStudent :: "env \<Rightarrow> updateStudentReq \<Rightarrow> string list" where
  "validateUpdateStudent e rq =
     validateProfile e (us_firstName rq) (us_lastName rq) (us_email rq)
     @ optional (us_phone rq) (\<lambda>v. check (phonePattern v) ''Please provide a valid phone number'')
     @ optional (chain (us_academicInfo rq) year)
         (\<lambda>v. check (inRange 1 5 v) ''Year must be between 1 and 5'')
     @ optional (chain (us_academicInfo rq) semester)
         (\<lambda>v. check (inRange 1 8 v) ''Semester must be between 1 and 8'')
     @ optional (chain (us_academicInfo rq) cgpa)
         (\<lambda>v. check (0 \<le> v \<and> v \<le> 10) ''CGPA must be between 0 and 10'')
     @ optional (us_status rq) (\<lambda>v. check (v \<in> set allowedStatuses) ''Invalid status'')"

definition studentUpdateData :: "date \<Rightarrow> student \<Rightarrow> updateStudentReq \<Rightarrow> studentUpdate" where
  "studentUpdateData now st rq =
     \<lparr>su_phone = (if str (us_phone rq) \<noteq> [] then us_phone rq else None),
      su_address = us_address rq,
      su_academicInfo = map_option (mergeAcademicInfo (academicInfo st)) (us_academicInfo rq),
      su_guardianInfo = map_option (mergeGuardianInfo (guardianInfo st)) (us_guardianInfo rq),
      su_emergencyContact =
        map_option (mergeEmergencyContact (emergencyContact st)) (us_emergencyContact rq),
      su_status = (if str (us_status rq) \<noteq> [] then us_status rq else None),
      su_graduationDate =
        (if us_status rq = Some ''graduated'' \<and> status st \<noteq> ''graduated''
         then Some now else None)\<rparr>"

definition userPart :: "updateStudentReq \<Rightarrow> user \<Rightarrow> user" where
  "userPart rq u =
     u\<lparr>firstName := orStr (us_firstName rq) (firstName u),
       lastName := orStr (us_lastName rq) (lastName u),
       email := orStr (us_email rq) (email u)\<rparr>"

definition adminUpdateStudent ::
  "env \<Rightarrow> date \<Rightarrow> store \<Rightarrow> objectId \<Rightarrow> updateStudentReq \<Rightarrow> student reply \<times> store" where
  "adminUpdateStudent e now s i rq =
     (if validateUpdateStudent e rq \<noteq> [] then (ValidationFailed (validateUpdateStudent e rq), s)
      else case studentById s i of
             None \<Rightarrow> (Failure 404 ''Student not found'', s)
           | Some st \<Rightarrow>
               if str (us_email rq) \<noteq> []
                  \<and> list_ex (\<lambda>u. email u = str (us_email rq) \<and> u_id u \<noteq> userId st) (users s)
               then (Failure 400 ''Email is already taken by another user'', s)
               else
                 (let s1 = (if str (us_firstName rq) \<noteq> [] \<or> str (us_lastName rq) \<noteq> []
                               \<or> str (us_email rq) \<noteq> []
                            then setUser s (userId st) (userPart rq) else s)
                  in if \<not> validUpdate (castUpdate (studentUpdateData now st rq))
                     then (ServerError ''Server error while updating student'', s1)
                     else (Success 200 (Some ''Student updated successfully'')
                             (applyUpdate (castUpdate (studentUpdateData now st rq)) st),
                           setStudent s1 i
                             (applyUpdate (castUpdate (studentUpdateData now st rq))))))"

text \<open>\<open>DELETE /api/admin/students/:id\<close> and \<open>PUT /api/admin/students/:id/status\<close>.\<close>

definition adminDeleteStudent :: "store \<Rightarrow> objectId \<Rightarrow> unit reply \<times> store" where
  "adminDeleteStudent s i =
     (case studentById s i of
        None \<Rightarrow> (Failure 404 ''Student not found'', s)
      | Some st \<Rightarrow>
          (Success 200 (Some ''Student deleted successfully'') (),
           s\<lparr>students := deleteFirst (\<lambda>x. s_id x = i) (students s),
             users := deleteFirst (\<lambda>u. u_id u = userId st) (users s)\<rparr>))"

definition statusUpdateData :: "date \<Rightarrow> student \<Rightarrow> string \<Rightarrow> studentUpdate" where
  "statusUpdateData now st new =
     noUpdate\<lparr>su_status := Some new,
       su_graduationDate :=
         (if new = ''graduated'' \<and> status st \<noteq> ''graduated'' then Some now else None)\<rparr>"

text \<open>
  The update of the status route holds the status and the graduation date, two paths without
  a setter, and the route does not ask for the validators of the schema.
  The response of the status route reads the name and the e-mail of the populated User. When
  the User of the Student is missing, this read throws after the update has been written, and
  the response is the 500 error.
\<close>

definition adminSetStatus ::
  "date \<Rightarrow> store \<Rightarrow> objectId \<Rightarrow> string \<Rightarrow> (student \<times> user) reply \<times> store" where
  "adminSetStatus now s i new =
     (if new \<notin> set allowedStatuses then (ValidationFailed [''Invalid status''], s)
      else case studentById s i of
             None \<Rightarrow> (Failure 404 ''Student not found'', s)
           | Some st \<Rightarrow>
               (case userById s (userId st) of
                  None \<Rightarrow> ServerError ''Server error while updating student status''
                | Some u \<Rightarrow>
                    Success 200 (Some ''Student status updated successfully'')
                      (applyUpdate (statusUpdateData now st new) st, u),
                setStudent s i (applyUpdate (statusUpdateData now st new))))"

section \<open>The list of students\<close>

text \<open>
  \<open>GET /api/admin/students\<close> builds a filter object and hands it to \<open>Student.find\<close>.
  A filter is a conjunction of conditions on paths of the stored Student document, with an
  optional \<open>$or\<close> of such conditions. In the stored document \<open>userId\<close> is the identifier
  of the User and nothing else (\<open>populate\<close> joins the User after the query has run), so a
  path below \<open>userId\<close> names no value and a condition on it holds for no document.
  The parameters of the query are typed, so the route's \<open>isString\<close> checks always pass.
\<close>

record listQuery =
  q_page :: "int option"
  q_limit :: "int option"
  q_search :: "string option"
  q_department :: "string option"
  q_status :: "string option"
  q_year :: "int option"

datatype cond = Regex string | EqStr string | EqNum int

datatype jv = JStr string | JNum int | JId objectId

record queryFilter =
  orClauses :: "(string \<times> cond) list option"
  andClauses :: "(string \<times> cond) list"

definition validateList :: "listQuery \<Rightarrow> string list" where
  "validateList q =
     optional (q_page q) (\<lambda>v. check (1 \<le> v) ''Page must be a positive integer'')
     @ optional (q_limit q) (\<lambda>v. check (inRange 1 100 v) ''Limit must be between 1 and 100'')
     @ optional (q_status q) (\<lambda>v. check (v \<in> set allowedStatuses) ''Invalid status'')
     @ optional (q_year q) (\<lambda>v. check (inRange 1 5 v) ''Year must be between 1 and 5'')"

definition buildFilter :: "listQuery \<Rightarrow> queryFilter" where
  "buildFilter q =
     \<lparr>orClauses =
        (if str (q_search q) \<noteq> []
         then Some [(''studentId'', Regex (str (q_search q))),
                    (''userId.firstName'', Regex (str (q_search q))),
                    (''userId.lastName'', Regex (str (q_search q))),
                    (''userId.email'', Regex (str (q_search q)))]
         else None),
      andClauses =
        (if str (q_department q) \<noteq> []
         then [(''academicInfo.department'', Regex (str (q_department q)))] else [])
        @ (if str (q_status q) \<noteq> [] then [(''status'', EqStr (str (q_status q)))] else [])
        @ (case q_year q of None \<Rightarrow> [] | Some y \<Rightarrow> [(''academicInfo.year'', EqNum y)])\<rparr>"

definition studentPath :: "student \<Rightarrow> string \<Rightarrow> jv option" where
  "studentPath st p =
     (if p = ''studentId'' then Some (JStr (studentId st))
      else if p = ''userId'' then Some (JId (userId st))
      else if p = ''status'' then Some (JStr (status st))
      else if p = ''academicInfo.department''
      then map_option JStr (department (academicInfo st))
      else if p = ''academicInfo.year'' then map_option JNum (year (academicInfo st))
      else None)"

fun condHolds :: "env \<Rightarrow> cond \<Rightarrow> jv option \<Rightarrow> bool" where
  "condHolds e (Regex pat) (Some (JStr v)) = regexTest e pat v"
| "condHolds e (EqStr x) (Some (JStr v)) = (v = x)"
| "condHolds e (EqNum n) (Some (JNum v)) = (v = n)"
| "condHolds e c v = False"

definition clauseHolds :: "env \<Rightarrow> student \<Rightarrow> string \<times> cond \<Rightarrow> bool" where
  "clauseHolds e st cl = condHolds e (snd cl) (studentPath st (fst cl))"

definition matches :: "env \<Rightarrow> queryFilter \<Rightarrow> student \<Rightarrow> bool" where
  "matches e f st =
     ((case orClauses f of None \<Rightarrow> True | Some cs \<Rightarrow> list_ex (clauseHolds e st) cs)
      \<and> list_all (clauseHolds e st) (andClauses f))"

record pagination =
  currentPage :: int
  totalPages :: int
  totalStudents :: int
  hasNextPage :: bool
  hasPrevPage :: bool

definition ceilDiv :: "int \<Rightarrow> int \<Rightarrow> int" where
  "ceilDiv a b = (a + b - 1) div b"

definition adminListStudents ::
  "env \<Rightarrow> store \<Rightarrow> listQuery \<Rightarrow> ((student \<times> user option) list \<times> pagination) reply" where
  "adminListStudents e s q =
     (if validateList q \<noteq> [] then ValidationFailed (validateList q)
      else
        (let page = orNum (q_page q) 1; limit = orNum (q_limit q) 10;
             found = filter (matches e (buildFilter q)) (students s);
             total = int (length found)
         in Success 200 None
              (map (\<lambda>st. (st, userById s (userId st)))
                 (take (nat limit) (drop (nat ((page - 1) * limit))
                    (rev (sort_key createdAt found)))),
               \<lparr>currentPage = page, totalPages = ceilDiv total limit,
                totalStudents = total, hasNextPage = (page < ceilDiv total limit),
                hasPrevPage = (1 < page)\<rparr>)))"

section \<open>The API as a whole\<close>

text \<open>
  Every route that writes to the store, with the \<open>Authorization\<close> header of the request.
  The routes under \<open>/api/admin\<close> stand behind the gate for admins, those under
  \<open>/api/student\<close> behind the gate for students, the profile and password routes behind the
  gate for both; \<open>register\<close> and \<open>login\<close> are open. The \<open>GET\<close> routes leave the store as
  it is. \<open>runCalls\<close> serves a sequence of requests, each with the state of the process and
  the clock at its time.
\<close>

datatype call =
    Register "string option" registerReq
  | Login string string
  | UpdateAuthProfile "string option" profileReq
  | ChangePassword "string option" string string
  | CreateUser "string option" string string string string string string
  | UpdateUser "string option" objectId userUpdateReq
  | DeleteUser "string option" objectId
  | CreateStudent "string option" createStudentReq
  | UpdateStudent "string option" objectId updateStudentReq
  | DeleteStudent "string option" objectId
  | SetStatus "string option" objectId string
  | UpdateOwnProfile "string option" ownProfileReq

definition guarded ::
  "env \<Rightarrow> store \<Rightarrow> string list \<Rightarrow> string option \<Rightarrow> (user \<Rightarrow> store) \<Rightarrow> store" where
  "guarded e s allowed hdr run =
     (case (gate e s allowed hdr :: unit reply + user) of Inl r \<Rightarrow> s | Inr u \<Rightarrow> run u)"

fun apiStore :: "env \<Rightarrow> date \<Rightarrow> store \<Rightarrow> call \<Rightarrow> store" where
  "apiStore e now s (Register hdr rq) = snd (register e now s hdr rq)"
| "apiStore e now s (Login em pw) = snd (login e now s em pw)"
| "apiStore e now s (UpdateAuthProfile hdr rq) =
     guarded e s bothRoles hdr (\<lambda>u. snd (updateAuthProfile e s u rq))"
| "apiStore e now s (ChangePassword hdr cur new) =
     guarded e s bothRoles hdr (\<lambda>u. snd (changePassword e s u cur new))"
| "apiStore e now s (CreateUser hdr un em pw fname lname rl) =
     guarded e s adminOnly hdr (\<lambda>u. snd (createUser e s un em pw fname lname rl))"
| "apiStore e now s (UpdateUser hdr i rq) =
     guarded e s adminOnly hdr (\<lambda>u. snd (updateUser e s i rq))"
| "apiStore e now s (DeleteUser hdr i) =
     guarded e s adminOnly hdr (\<lambda>u. snd (deleteUser s i))"
| "apiStore e now s (CreateStudent hdr rq) =
     guarded e s adminOnly hdr (\<lambda>u. snd (adminCreateStudent e now s rq))"
| "apiStore e now s (UpdateStudent hdr i rq) =
     guarded e s adminOnly hdr (\<lambda>u. snd (adminUpdateStudent e now s i rq))"
| "apiStore e now s (DeleteStudent hdr i) =
     guarded e s adminOnly hdr (\<lambda>u. snd (adminDeleteStudent s i))"
| "apiStore e now s (SetStatus hdr i new) =
     guarded e s adminOnly hdr (\<lambda>u. snd (adminSetStatus now s i new))"
| "apiStore e now s (UpdateOwnProfile hdr rq) =
     guarded e s studentOnly hdr (\<lambda>u. snd (updateOwnProfile s u rq))"

fun runCalls :: "store \<Rightarrow> (env \<times> date \<times> call) list \<Rightarrow> store" where
  "runCalls s [] = s"
| "runCalls s ((e, now, c) # cs) = runCalls (apiStore e now s c) cs"

definition statusesAllowed :: "store \<Rightarrow> bool" where
  "statusesAllowed s = list_all (\<lambda>st. status st \<in> set allowedStatuses) (students s)"

definition activeAdmins :: "store \<Rightarrow> nat" where
  "activeAdmins s = length (filter (\<lambda>u. role u = ''admin'' \<and> isActive u) (users s))"

text \<open>
  A stored Student whose address and emergency contact are as the setters of the schema leave
  them: its strings on the trimmed paths have no white space at either end.
\<close>

definition normalised :: "student \<Rightarrow> bool" where
  "normalised st =
     (castAddress (address st) = address st
      \<and> castEmergencyContact (emergencyContact st) = emergencyContact st)"

definition allNormalised :: "store \<Rightarrow> bool" where
  "allNormalised s = list_all normalised (students s)"

section \<open>Sample documents\<close>

text \<open>Sample documents for the statements below.\<close>

definition noAddress :: address where
  "noAddress = \<lparr>street = None, city = None, state = None, zipCode = None, country = None\<rparr>"

definition sampleAddress :: address where
  "sampleAddress = \<lparr>street = Some ''12 Hill Road'', city = Some ''Pune'',
     state = Some ''MH'', zipCode = Some ''411001'', country = Some ''India''\<rparr>"

definition sampleAcademic :: academicInfo where
  "sampleAcademic = \<lparr>collegeName = Some ''VDCET'', department = Some ''CSE'',
     course = Some ''BTech'', specialization = Some [], year = Some 2, semester = Some 3,
     cgpa = Some 8, totalCredits = Some 0, earnedCredits = Some 0,
     attendancePercentage = Some 0\<rparr>"

definition sampleGuardian :: guardianInfo where
  "sampleGuardian = \<lparr>g_name = Some ''Ravi'', g_relationship = Some ''father'',
     g_phone = Some ''9000000001'', g_email = Some ''ravi@example.com''\<rparr>"

definition sampleContact :: emergencyContact where
  "sampleContact = \<lparr>ec_name = Some ''Mira'', ec_relationship = Some ''mother'',
     ec_phone = Some ''9000000002''\<rparr>"

definition sampleStudent :: student where
  "sampleStudent = \<lparr>s_id = 2, userId = 1, studentId = ''S1'', dateOfBirth = 0,
     gender = ''female'', phone = ''9000000000'', address = sampleAddress,
     academicInfo = sampleAcademic, guardianInfo = sampleGuardian,
     emergencyContact = sampleContact, financialInfo = Some defaultFinancial,
     hostelInfo = Some defaultHostel, status = ''active'', enrollmentDate = 5,
     graduationDate = None, createdAt = 5\<rparr>"

text \<open>
  A hosteller whose stored hostel fee is zero (the schema's default), and the spec's example
  of a day scholar with no stored total, a scholarship of 5000 and 10000 paid.
\<close>

definition hosteller :: student where
  "hosteller = sampleStudent\<lparr>hostelInfo := Some (defaultHostel\<lparr>isHostelite := Some True\<rparr>)\<rparr>"

definition dayScholar :: student where
  "dayScholar = sampleStudent\<lparr>financialInfo :=
     Some (defaultFinancial\<lparr>totalFees := None, scholarshipAmount := Some 5000,
       paidFees := Some 10000\<rparr>)\<rparr>"

text \<open>
  A test double for the collaborators: an e-mail address is a string with an \<open>@\<close>, the
  hash of a password is the password with a mark in front, the token of a user is the decimal
  of its identifier, and a pattern without metacharacters is searched for as a substring,
  letters compared without case.
\<close>

definition toLower :: "char \<Rightarrow> char" where
  "toLower c =
     (case map_of (zip ''ABCDEFGHIJKLMNOPQRSTUVWXYZ'' ''abcdefghijklmnopqrstuvwxyz'') c of
        None \<Rightarrow> c
      | Some l \<Rightarrow> l)"

fun containsStr :: "string \<Rightarrow> string \<Rightarrow> bool" where
  "containsStr pat [] = (pat = [])"
| "containsStr pat (c # cs) = (take (length pat) (c # cs) = pat \<or> containsStr pat cs)"

definition containsNoCase :: "string \<Rightarrow> string \<Rightarrow> bool" where
  "containsNoCase pat txt = containsStr (map toLower pat) (map toLower txt)"

definition demoEnv :: env where
  "demoEnv = \<lparr>isEmail = (\<lambda>s. CHR ''@'' \<in> set s),
     hashPassword = (\<lambda>pw. CHR ''#'' # pw),
     comparePassword = (\<lambda>h pw. h = CHR ''#'' # pw),
     jwtSign = showNat,
     jwtVerify = (\<lambda>tok. if tok = ''1'' then Some 1 else None),
     regexTest = containsNoCase,
     isActiveDefault = True, readyState = 1, jwtSecretSet = True,
     adminCountThrows = False\<rparr>"

definition emptyStore :: store where
  "emptyStore = \<lparr>users = [], students = [], nextId = 1\<rparr>"

definition rootAdmin :: user where
  "rootAdmin = \<lparr>u_id = 1, username = ''admin'', email = ''admin@college.com'',
     password = ''#admin123'', firstName = ''System'', lastName = ''Administrator'',
     role = ''admin'', isActive = True, lastLogin = None\<rparr>"

definition alice :: user where
  "alice = \<lparr>u_id = 1, username = ''alice'', email = ''alice@example.com'',
     password = ''#secret1'', firstName = ''Alice'', lastName = ''Rao'',
     role = ''student'', isActive = True, lastLogin = None\<rparr>"

definition bob :: user where
  "bob = \<lparr>u_id = 3, username = ''bob'', email = ''bob@example.com'',
     password = ''#secret2'', firstName = ''Bob'', lastName = ''Sen'',
     role = ''student'', isActive = True, lastLogin = None\<rparr>"

definition soleAdminStore :: store where
  "soleAdminStore = \<lparr>users = [rootAdmin], students = [], nextId = 2\<rparr>"

definition aliceStore :: store where
  "aliceStore = \<lparr>users = [alice], students = [sampleStudent], nextId = 3\<rparr>"

definition classStore :: store where
  "classStore = \<lparr>users = [alice, bob],
     students = [sampleStudent, sampleStudent\<lparr>s_id := 4, userId := 3, studentId := ''S2''\<rparr>],
     nextId = 5\<rparr>"

definition secondAdmin :: user where
  "secondAdmin = \<lparr>u_id = 2, username = ''dean'', email = ''dean@college.com'',
     password = ''#dean1234'', firstName = ''Asha'', lastName = ''Dean'',
     role = ''admin'', isActive = True, lastLogin = None\<rparr>"

definition twoAdminStore :: store where
  "twoAdminStore = \<lparr>users = [rootAdmin, secondAdmin], students = [], nextId = 3\<rparr>"

definition dormantStore :: store where
  "dormantStore = \<lparr>users = [rootAdmin, secondAdmin\<lparr>isActive := False\<rparr>], students = [],
     nextId = 3\<rparr>"

definition campusStore :: store where
  "campusStore = \<lparr>users = [rootAdmin, bob],
     students = [sampleStudent\<lparr>s_id := 4, userId := 3, studentId := ''S2''\<rparr>],
     nextId = 5\<rparr>"

text \<open>Requests for the statements below.\<close>

definition adminCandidate :: registerReq where
  "adminCandidate = \<lparr>rq_username = ''root'', rq_email = ''root@college.com'',
     rq_password = ''secret0'', rq_firstName = ''Root'', rq_lastName = ''Admin'',
     rq_role = ''admin'', rq_studentData = None\<rparr>"

definition searchFor :: "string \<Rightarrow> listQuery" where
  "searchFor s = \<lparr>q_page = None, q_limit = None, q_search = Some s, q_department = None,
     q_status = None, q_year = None\<rparr>"

definition newcomer :: createStudentReq where
  "newcomer = \<lparr>cs_username = ''carol'', cs_email = ''carol@example.com'',
     cs_password = ''secret3'', cs_firstName = ''Carol'', cs_lastName = ''Das'',
     cs_studentId = ''S3'', cs_dateOfBirth = Some 0, cs_gender = ''female'',
     cs_phone = ''9000000003'', cs_address = sampleAddress,
     cs_academicInfo = sampleAcademic, cs_guardianInfo = sampleGuardian,
     cs_emergencyContact = sampleContact\<rparr>"

definition newcomerCgpa11 :: createStudentReq where
  "newcomerCgpa11 = newcomer\<lparr>cs_academicInfo := sampleAcademic\<lparr>cgpa := Some 11\<rparr>\<rparr>"

definition statusOnly :: "string \<Rightarrow> updateStudentReq" where
  "statusOnly new = \<lparr>us_firstName = None, us_lastName = None, us_email = None,
     us_phone = None, us_address = None, us_academicInfo = None, us_guardianInfo = None,
     us_emergencyContact = None, us_status = Some new\<rparr>"

definition deactivate :: userUpdateReq where
  "deactivate = \<lparr>uu_firstName = None, uu_lastName = None, uu_email = None, uu_role = None,
     uu_isActive = Some False\<rparr>"

definition cityOnly :: "string \<Rightarrow> ownProfileReq" where
  "cityOnly c = \<lparr>op_phone = None,
     op_address = Some (noAddress\<lparr>city := Some c\<rparr>), op_emergencyContact = None\<rparr>"

section \<open>Facts about the collections\<close>

lemma find_deleteFirst_other:
  "j \<noteq> k \<Longrightarrow> find (\<lambda>x. f x = j) (deleteFirst (\<lambda>x. f x = k) xs) = find (\<lambda>x. f x = j) xs"
  by (induction xs) auto

lemma find_None_notin: "k \<notin> f ` set xs \<Longrightarrow> find (\<lambda>x. f x = k) xs = None"
  by (induction xs) auto

lemma find_deleteFirst_same:
  "distinct (map f xs) \<Longrightarrow> find (\<lambda>x. f x = k) (deleteFirst (\<lambda>x. f x = k) xs) = None"
  by (induction xs) (auto simp: find_None_notin)

lemma find_updateFirst_same:
  "(\<And>x. f (g x) = f x) \<Longrightarrow>
   find (\<lambda>x. f x = k) (updateFirst (\<lambda>x. f x = k) g xs) = map_option g (find (\<lambda>x. f x = k) xs)"
  by (induction xs) auto

lemma find_updateFirst_other:
  "(\<And>x. f (g x) = f x) \<Longrightarrow> j \<noteq> k \<Longrightarrow>
   find (\<lambda>x. f x = j) (updateFirst (\<lambda>x. f x = k) g xs) = find (\<lambda>x. f x = j) xs"
  by (induction xs) auto

lemma s_id_applyUpdate: "s_id (applyUpdate d st) = s_id st"
  by (simp add: applyUpdate_def)

lemma studentById_setStudent:
  "studentById (setStudent s i (applyUpdate d)) i = map_option (applyUpdate d) (studentById s i)"
  by (simp add: studentById_def setStudent_def find_updateFirst_same s_id_applyUpdate)

lemma studentById_setUser: "studentById (setUser s j f) i = studentById s i"
  by (simp add: studentById_def setUser_def)

section \<open>Facts about the setters\<close>

text \<open>
  A cast update holds the phone, the status and the graduation date of the update as they
  are, and the nested objects after their setters. Trimming a trimmed string changes nothing,
  and neither does a second run of the setters of an address or of an emergency contact.
\<close>

lemma castUpdate_fields:
  "su_phone (castUpdate d) = su_phone d"
  "su_status (castUpdate d) = su_status d"
  "su_graduationDate (castUpdate d) = su_graduationDate d"
  "su_address (castUpdate d) = map_option castAddress (su_address d)"
  "su_academicInfo (castUpdate d) = map_option castAcademicInfo (su_academicInfo d)"
  "su_guardianInfo (castUpdate d) = map_option castGuardianInfo (su_guardianInfo d)"
  "su_emergencyContact (castUpdate d) = map_option castEmergencyContact (su_emergencyContact d)"
  by (simp_all add: castUpdate_def)

lemma status_castUpdate:
  "status (applyUpdate (castUpdate d) x) = status (applyUpdate d x)"
  "graduationDate (applyUpdate (castUpdate d) x) = graduationDate (applyUpdate d x)"
  by (simp_all add: applyUpdate_def castUpdate_fields)

lemma dropWhile_hd: "xs = [] \<or> \<not> P (hd xs) \<Longrightarrow> dropWhile P xs = xs"
  by (cases xs) auto

lemma last_dropWhile: "dropWhile P xs \<noteq> [] \<Longrightarrow> last (dropWhile P xs) = last xs"
  by (induction xs) (auto split: if_splits)

lemma trim_ends: "trim s = [] \<or> (\<not> isSpace (hd (trim s)) \<and> \<not> isSpace (last (trim s)))"
proof (cases "trim s = []")
  case True
  then show ?thesis by simp
next
  case False
  let ?u = "dropWhile isSpace s"
  let ?v = "dropWhile isSpace (rev ?u)"
  from False have v: "?v \<noteq> []" by (simp add: trim_def)
  have u: "?u \<noteq> []"
  proof
    assume e: "?u = []"
    have "?v = []" unfolding e by simp
    with v show False ..
  qed
  have "last (trim s) = hd ?v" using v by (simp add: trim_def last_rev)
  moreover have "\<not> isSpace (hd ?v)" using v by (rule hd_dropWhile)
  moreover have "hd (trim s) = last ?v" using v by (simp add: trim_def hd_rev)
  moreover have "last ?v = hd ?u" using v u by (simp add: last_dropWhile last_rev)
  moreover have "\<not> isSpace (hd ?u)" using u by (rule hd_dropWhile)
  ultimately show ?thesis by simp
qed

lemma trim_fixed:
  assumes "s = [] \<or> (\<not> isSpace (hd s) \<and> \<not> isSpace (last s))"
  shows "trim s = s"
proof (cases "s = []")
  case True
  then show ?thesis by (simp add: trim_def)
next
  case False
  with assms have h: "\<not> isSpace (hd s)" and l: "\<not> isSpace (last s)" by simp_all
  have 1: "dropWhile isSpace s = s" using h by (simp add: dropWhile_hd)
  have 2: "dropWhile isSpace (rev s) = rev s" using False l by (simp add: dropWhile_hd hd_rev)
  show ?thesis by (simp add: trim_def 1 2)
qed

lemma trim_trim: "trim (trim s) = trim s"
  by (rule trim_fixed) (rule trim_ends)

lemma map_option_trim_trim: "map_option trim (map_option trim v) = map_option trim v"
  by (cases v) (simp_all add: trim_trim)

lemma castAddress_castAddress: "castAddress (castAddress a) = castAddress a"
  by (simp add: castAddress_def map_option_trim_trim)

lemma castEmergencyContact_twice:
  "castEmergencyContact (castEmergencyContact c) = castEmergencyContact c"
  by (simp add: castEmergencyContact_def map_option_trim_trim)

text \<open>The sample documents are as the setters leave them.\<close>

lemma sampleAddress_cast: "castAddress sampleAddress = sampleAddress"
  by (simp add: castAddress_def sampleAddress_def trim_def isSpace_def)

lemma sampleContact_cast: "castEmergencyContact sampleContact = sampleContact"
  by (simp add: castEmergencyContact_def sampleContact_def trim_def isSpace_def)

lemma sampleGuardian_cast: "castGuardianInfo sampleGuardian = sampleGuardian"
  by (simp add: castGuardianInfo_def sampleGuardian_def trim_def isSpace_def lowercase_def
      lowerChar_def capitals_def smalls_def)


section \<open>Fee totals\<close>

text \<open>
  The rows of the document agree with the spec's formula except for a hosteller whose stored
  hostel fee is missing or zero: there the total, and with it the balance, is 15000 short.
  The balance is always the total less the scholarship and the amount paid.
\<close>

lemma totalFeesRow_claimed:
  "totalFeesRow st =
     claimedTotalFees st
     - (if truthy (chain (hostelInfo st) isHostelite)
           \<and> orNum (chain (hostelInfo st) hostelFees) 0 = 0
        then 15000 else 0)"
  by (auto simp: totalFeesRow_def claimedTotalFees_def orNum_def split: option.splits)

lemma balanceRow_total:
  "balanceRow st = totalFeesRow st - scholarshipRow st - paidRow st"
  by (simp add: balanceRow_def totalFeesRow_def scholarshipRow_def paidRow_def)

text \<open>
  C1 (the totals of the fee-structure document). The claim says that a hosteller with no stored
  hostel fee is charged the default 15000 in the total. The document does print 15000 in its
  "Hostel Fees:" row, but its "Total Fees:" and "Balance Amount:" rows add 0 for the same
  student: for the hosteller with the schema's default amounts the rows read 15000, 40000 and
  40000, where the claim requires a total and a balance of 55000. The spec's own example of a
  day scholar does give the balance 25000.
\<close>

theorem feeSummary_hosteller_default:
  "feeSummary hosteller =
     [(''Total Academic Fees:'', Txt ''40,000''), (''Hostel Fees:'', Num 15000),
      (''Total Fees:'', Num 40000), (''Scholarship Amount:'', Num 0),
      (''Paid Amount:'', Num 0), (''Balance Amount:'', Num 40000)]
   \<and> claimedTotalFees hosteller = 55000
   \<and> balanceRow dayScholar = 25000"
  by (simp add: feeSummary_def hostelFeesRow_def totalFeesRow_def balanceRow_def
      scholarshipRow_def paidRow_def claimedTotalFees_def hosteller_def dayScholar_def
      sampleStudent_def defaultHostel_def defaultFinancial_def orNum_def chain_def truthy_def)

section \<open>The graduation date\<close>

lemma adminSetStatus_found:
  assumes "studentById s i = Some st" "new \<in> set allowedStatuses"
  shows "snd (adminSetStatus now s i new)
           = setStudent s i (applyUpdate (statusUpdateData now st new))"
    and "isSuccess (fst (adminSetStatus now s i new)) \<longleftrightarrow> userById s (userId st) \<noteq> None"
  using assms by (auto simp: adminSetStatus_def split: option.splits)

lemma status_statusUpdate:
  "status (applyUpdate (statusUpdateData now st new) x) = new"
  by (simp add: applyUpdate_def statusUpdateData_def noUpdate_def)

lemma graduation_statusUpdate:
  "graduationDate (applyUpdate (statusUpdateData now st ''graduated'') st) =
     (if status st = ''graduated'' then graduationDate st else Some now)"
  by (simp add: applyUpdate_def statusUpdateData_def noUpdate_def)

lemma adminUpdateStudent_success:
  assumes "isSuccess (fst (adminUpdateStudent e now s i rq))" "studentById s i = Some st"
  shows "studentById (snd (adminUpdateStudent e now s i rq)) i =
           Some (applyUpdate (castUpdate (studentUpdateData now st rq)) st)"
  using assms
  by (auto simp: adminUpdateStudent_def Let_def studentById_setStudent studentById_setUser
      split: if_splits)

lemma graduation_studentUpdate:
  "us_status rq = Some ''graduated'' \<Longrightarrow>
   status (applyUpdate (castUpdate (studentUpdateData now st rq)) st) = ''graduated''
   \<and> graduationDate (applyUpdate (castUpdate (studentUpdateData now st rq)) st) =
     (if status st = ''graduated'' then graduationDate st else Some now)"
  by (simp add: status_castUpdate) (simp add: applyUpdate_def studentUpdateData_def str_def)

lemma statusOnly_succeeds:
  assumes "studentById s i = Some st" "new \<in> set allowedStatuses"
  shows "isSuccess (fst (adminUpdateStudent e now s i (statusOnly new)))"
proof -
  have v: "validateUpdateStudent e (statusOnly new) = []"
    using assms(2)
    by (simp add: validateUpdateStudent_def validateProfile_def statusOnly_def optional_def
        chain_def check_def)
  have u: "validUpdate (castUpdate (studentUpdateData now st (statusOnly new)))"
    using assms(2)
    by (auto simp: validUpdate_def castUpdate_fields studentUpdateData_def statusOnly_def
        str_def enumV_def statuses_def allowedStatuses_def)
  show ?thesis
    using assms(1) v u
    by (simp add: adminUpdateStudent_def Let_def statusOnly_def str_def)
qed

text \<open>
  C6 (the graduation date is stamped on the transition only). For a Student that exists,
  after \<open>PUT /api/admin/students/:id/status\<close> with status \<open>graduated\<close> the stored status
  is \<open>graduated\<close> and the stored graduation date is the time of the request when the
  status before was not \<open>graduated\<close>, and the date stored before when it was; the route
  answers with a success when the User of the Student exists.
  \<open>PUT /api/admin/students/:id\<close> does the same whenever it succeeds with status
  \<open>graduated\<close> in its body, and it does succeed when the status is all the body holds.
\<close>

theorem graduationDate_stamped_on_transition:
  assumes "studentById s i = Some st"
  shows "(isSuccess (fst (adminSetStatus now s i ''graduated''))
           \<longleftrightarrow> userById s (userId st) \<noteq> None)
    \<and> map_option status (studentById (snd (adminSetStatus now s i ''graduated'')) i)
        = Some ''graduated''
    \<and> map_option graduationDate (studentById (snd (adminSetStatus now s i ''graduated'')) i)
        = Some (if status st = ''graduated'' then graduationDate st else Some now)
    \<and> isSuccess (fst (adminUpdateStudent e now s i (statusOnly ''graduated'')))
    \<and> (us_status rq = Some ''graduated'' \<and> isSuccess (fst (adminUpdateStudent e now s i rq))
        \<longrightarrow> map_option status (studentById (snd (adminUpdateStudent e now s i rq)) i)
              = Some ''graduated''
          \<and> map_option graduationDate (studentById (snd (adminUpdateStudent e now s i rq)) i)
              = Some (if status st = ''graduated'' then graduationDate st else Some now))"
proof -
  have g: "''graduated'' \<in> set allowedStatuses" by (simp add: allowedStatuses_def)
  note a = adminSetStatus_found [OF assms g, of now]
  have 2: "studentById (snd (adminSetStatus now s i ''graduated'')) i
           = Some (applyUpdate (statusUpdateData now st ''graduated'') st)"
    by (simp add: a(1) studentById_setStudent assms)
  have 3: "isSuccess (fst (adminUpdateStudent e now s i (statusOnly ''graduated'')))"
    by (rule statusOnly_succeeds [OF assms g])
  show ?thesis
    using a(2) 2 3 status_statusUpdate graduation_statusUpdate
      adminUpdateStudent_success [OF _ assms] graduation_studentUpdate
    by simp
qed

theorem graduationDate_stamped_on_transition_witness:
  "studentById aliceStore 2 = Some sampleStudent
   \<and> isSuccess (fst (adminSetStatus 50 aliceStore 2 ''graduated''))
   \<and> map_option graduationDate
        (studentById (snd (adminSetStatus 50 aliceStore 2 ''graduated'')) 2) = Some (Some 50)
   \<and> map_option graduationDate
        (studentById (snd (adminSetStatus 99 (snd (adminSetStatus 50 aliceStore 2 ''graduated'')) 2
           ''graduated'')) 2) = Some (Some 50)
   \<and> map_option graduationDate
        (studentById (snd (adminUpdateStudent demoEnv 99
           (snd (adminSetStatus 50 aliceStore 2 ''graduated'')) 2 (statusOnly ''graduated''))) 2)
      = Some (Some 50)"
proof -
  have h: "studentById aliceStore 2 = Some sampleStudent"
    by (simp add: studentById_def aliceStore_def sampleStudent_def)
  have o: "userById aliceStore (userId sampleStudent) \<noteq> None"
    by (simp add: userById_def aliceStore_def sampleStudent_def alice_def)
  have g: "''graduated'' \<in> set allowedStatuses" by (simp add: allowedStatuses_def)
  let ?s1 = "snd (adminSetStatus 50 aliceStore 2 ''graduated'')"
  let ?st1 = "applyUpdate (statusUpdateData 50 sampleStudent ''graduated'') sampleStudent"
  have h1: "studentById ?s1 2 = Some ?st1"
    by (simp add: adminSetStatus_found(1) [OF h g] studentById_setStudent h)
  have st1: "status ?st1 = ''graduated''" "graduationDate ?st1 = Some 50"
    by (simp_all add: applyUpdate_def statusUpdateData_def noUpdate_def sampleStudent_def)
  have u: "us_status (statusOnly ''graduated'') = Some ''graduated''"
    by (simp add: statusOnly_def)
  show ?thesis
    using h o graduationDate_stamped_on_transition [OF h, of 50 demoEnv "statusOnly ''graduated''"]
      graduationDate_stamped_on_transition [OF h1, of 99 demoEnv "statusOnly ''graduated''"]
      st1 u
    by (simp add: sampleStudent_def)
qed

section \<open>Login refusals\<close>

text \<open>
  C8 (a refused login does not tell whether the user exists). Take two requests that pass the
  route's validation (an e-mail address and a password that is not empty), the first for an
  address no User has, the second for the address of an active User with a password that
  does not verify. Both are answered with status 401 and the body
  \<open>{status: 'error', message: 'Invalid credentials'}\<close>, and neither changes the store.
\<close>

theorem login_refusals_identical:
  assumes "isEmail e em1" "pw1 \<noteq> []" "userByEmail s em1 = None"
    and "isEmail e em2" "pw2 \<noteq> []" "userByEmail s em2 = Some u" "isActive u"
      "\<not> comparePassword e (password u) pw2"
  shows "login e t1 s em1 pw1 = (Failure 401 ''Invalid credentials'', s)
    \<and> login e t2 s em2 pw2 = (Failure 401 ''Invalid credentials'', s)
    \<and> fst (login e t1 s em1 pw1) = fst (login e t2 s em2 pw2)"
  using assms by (simp add: login_def check_def)

theorem login_refusals_identical_witness:
  "isEmail demoEnv ''nobody@example.com'' \<and> isEmail demoEnv ''alice@example.com''
   \<and> userByEmail aliceStore ''nobody@example.com'' = None
   \<and> userByEmail aliceStore ''alice@example.com'' = Some alice \<and> isActive alice
   \<and> \<not> comparePassword demoEnv (password alice) ''guess''
   \<and> fst (login demoEnv 7 aliceStore ''nobody@example.com'' ''guess'')
       = fst (login demoEnv 8 aliceStore ''alice@example.com'' ''guess'')
   \<and> statusCode (fst (login demoEnv 8 aliceStore ''alice@example.com'' ''guess'')) = 401"
proof -
  have a: "isEmail demoEnv ''nobody@example.com''" "isEmail demoEnv ''alice@example.com''"
    by (simp_all add: demoEnv_def)
  have b: "userByEmail aliceStore ''nobody@example.com'' = None"
    "userByEmail aliceStore ''alice@example.com'' = Some alice"
    by (simp_all add: userByEmail_def aliceStore_def alice_def)
  have c: "isActive alice" "\<not> comparePassword demoEnv (password alice) ''guess''"
    by (simp_all add: alice_def demoEnv_def)
  have d: "''guess'' \<noteq> []" by simp
  show ?thesis
    using a b c login_refusals_identical [OF a(1) d b(1) a(2) d b(2) c, of 7 8]
    by simp
qed

text \<open>
  The same holds for one request against two stores: whether the address is unknown or
  belongs to an active User whose password differs, the response is the same, also when the
  request fails validation.
\<close>

lemma login_same_request_two_stores:
  assumes "userByEmail s em = None"
    and "userByEmail s' em = Some u" "isActive u" "\<not> comparePassword e (password u) pw"
  shows "fst (login e t1 s em pw) = fst (login e t2 s' em pw)"
  using assms by (simp add: login_def)

section \<open>Deleting a student\<close>

text \<open>
  C2, as stated (deleting a StudentRecord leaves its User in place), fails:
  \<open>DELETE /api/admin/students/:id\<close> deletes the associated User right after the Student.
  In a store that holds the student user with identifier 1 and her profile with identifier 2,
  deleting the profile succeeds and the User with identifier 1 is gone.
\<close>

theorem adminDeleteStudent_keeps_user_counterexample:
  "studentById aliceStore 2 = Some sampleStudent \<and> userId sampleStudent = 1
   \<and> userById aliceStore 1 = Some alice
   \<and> isSuccess (fst (adminDeleteStudent aliceStore 2))
   \<and> userById (snd (adminDeleteStudent aliceStore 2)) 1 = None"
  by (simp add: adminDeleteStudent_def studentById_def userById_def aliceStore_def
      sampleStudent_def alice_def)

lemma adminDeleteStudent_found:
  "studentById s i = Some st \<Longrightarrow>
   adminDeleteStudent s i =
     (Success 200 (Some ''Student deleted successfully'') (),
      s\<lparr>students := deleteFirst (\<lambda>x. s_id x = i) (students s),
        users := deleteFirst (\<lambda>u. u_id u = userId st) (users s)\<rparr>)"
  by (simp add: adminDeleteStudent_def)

text \<open>
  C2, amended (deleting a StudentRecord deletes its User too). In a store whose identifiers
  are unique, \<open>DELETE /api/admin/students/:id\<close> on a Student that exists succeeds; afterwards
  neither the Student nor the User its \<open>userId\<close> names is in the store, and every other
  Student and User is found as before.
\<close>

theorem adminDeleteStudent_removes_student_and_user:
  assumes "studentById s i = Some st"
    and "distinct (map s_id (students s))" "distinct (map u_id (users s))"
  shows "isSuccess (fst (adminDeleteStudent s i))
    \<and> studentById (snd (adminDeleteStudent s i)) i = None
    \<and> userById (snd (adminDeleteStudent s i)) (userId st) = None
    \<and> (\<forall>j. j \<noteq> i \<longrightarrow> studentById (snd (adminDeleteStudent s i)) j = studentById s j)
    \<and> (\<forall>j. j \<noteq> userId st \<longrightarrow> userById (snd (adminDeleteStudent s i)) j = userById s j)"
  using assms
  by (simp add: adminDeleteStudent_found studentById_def userById_def find_deleteFirst_same
      find_deleteFirst_other)

theorem adminDeleteStudent_removes_student_and_user_witness:
  "studentById aliceStore 2 = Some sampleStudent
   \<and> distinct (map s_id (students aliceStore)) \<and> distinct (map u_id (users aliceStore))
   \<and> isSuccess (fst (adminDeleteStudent aliceStore 2))
   \<and> studentById (snd (adminDeleteStudent aliceStore 2)) 2 = None
   \<and> userById (snd (adminDeleteStudent aliceStore 2)) 1 = None"
proof -
  have h: "studentById aliceStore 2 = Some sampleStudent"
    by (simp add: studentById_def aliceStore_def sampleStudent_def)
  have d: "distinct (map s_id (students aliceStore))" "distinct (map u_id (users aliceStore))"
    by (simp_all add: aliceStore_def)
  have u: "userId sampleStudent = 1" by (simp add: sampleStudent_def)
  show ?thesis
    using h d u adminDeleteStudent_removes_student_and_user [OF h d] by simp
qed

section \<open>The last admin\<close>

text \<open>
  C3, as stated (no operation brings the number of active admins to zero), fails. The guard
  of \<open>DELETE /api/admin/users/:id\<close> counts the Users whose role is admin, active or not:
  with an active admin and a deactivated one in the store, deleting the active admin succeeds
  and leaves no active admin. And \<open>PUT /api/admin/users/:id\<close> has no guard: with one
  admin in the store, who is active, the update \<open>{isActive: false}\<close> of that admin
  succeeds and leaves no active admin.
\<close>

theorem last_active_admin_counterexample:
  "activeAdmins dormantStore = 1
   \<and> isSuccess (fst (deleteUser dormantStore 1))
   \<and> activeAdmins (snd (deleteUser dormantStore 1)) = 0
   \<and> activeAdmins soleAdminStore = 1
   \<and> isSuccess (fst (updateUser demoEnv soleAdminStore 1 deactivate))
   \<and> activeAdmins (snd (updateUser demoEnv soleAdminStore 1 deactivate)) = 0"
  by (simp add: updateUser_def deleteUser_def activeAdmins_def countAdmins_def
      soleAdminStore_def dormantStore_def rootAdmin_def secondAdmin_def deactivate_def
      validateProfile_def optional_def userById_def str_def setUser_def userUpdateData_def
      orStr_def)

lemma filter_deleteFirst_length:
  "find P xs = Some u \<Longrightarrow>
   length (filter Q xs) = length (filter Q (deleteFirst P xs)) + (if Q u then 1 else 0)"
  by (induction xs) (auto split: if_splits)

lemma countAdmins_split:
  "userById s i = Some u \<Longrightarrow>
   countAdmins s =
     length (filter (\<lambda>u. role u = ''admin'') (deleteFirst (\<lambda>x. u_id x = i) (users s)))
     + (if role u = ''admin'' then 1 else 0)"
  unfolding countAdmins_def userById_def by (rule filter_deleteFirst_length)

lemma countAdmins_deleteUser:
  "userById s i = Some u \<Longrightarrow> \<not> (role u = ''admin'' \<and> countAdmins s \<le> 1) \<Longrightarrow>
   countAdmins (snd (deleteUser s i)) =
     length (filter (\<lambda>u. role u = ''admin'') (deleteFirst (\<lambda>x. u_id x = i) (users s)))"
  by (auto simp: deleteUser_def countAdmins_def)

text \<open>
  C3, amended (the guard of user deletion). \<open>DELETE /api/admin/users/:id\<close> counts the Users
  whose role is admin, active or not. Deleting an admin when at most one is counted is refused
  with status 400 and the message "Cannot delete the last admin user", and the store stays as
  it was; deleting an admin when two or more are counted succeeds and lowers the count by
  one; so a deletion of a user never brings a count of at least one admin down to zero.
\<close>

theorem deleteUser_keeps_an_admin:
  "(userById s i = Some u \<and> role u = ''admin'' \<and> countAdmins s \<le> 1
      \<longrightarrow> deleteUser s i = (Failure 400 ''Cannot delete the last admin user'', s))
   \<and> (userById s i = Some u \<and> role u = ''admin'' \<and> 2 \<le> countAdmins s
      \<longrightarrow> isSuccess (fst (deleteUser s i))
          \<and> countAdmins (snd (deleteUser s i)) + 1 = countAdmins s)
   \<and> (1 \<le> countAdmins s \<longrightarrow> 1 \<le> countAdmins (snd (deleteUser s i)))"
proof (intro conjI impI)
  assume "userById s i = Some u \<and> role u = ''admin'' \<and> countAdmins s \<le> 1"
  then show "deleteUser s i = (Failure 400 ''Cannot delete the last admin user'', s)"
    by (simp add: deleteUser_def)
next
  assume a: "userById s i = Some u \<and> role u = ''admin'' \<and> 2 \<le> countAdmins s"
  then show "isSuccess (fst (deleteUser s i))" by (simp add: deleteUser_def)
  from a have n: "\<not> (role u = ''admin'' \<and> countAdmins s \<le> 1)" by simp
  from a countAdmins_split [of s i u] countAdmins_deleteUser [OF _ n]
  show "countAdmins (snd (deleteUser s i)) + 1 = countAdmins s" by simp
next
  assume p: "1 \<le> countAdmins s"
  show "1 \<le> countAdmins (snd (deleteUser s i))"
  proof (cases "userById s i")
    case None
    with p show ?thesis by (simp add: deleteUser_def)
  next
    case (Some v)
    show ?thesis
    proof (cases "role v = ''admin'' \<and> countAdmins s \<le> 1")
      case True
      with Some p show ?thesis by (simp add: deleteUser_def)
    next
      case False
      define n where
        "n = length (filter (\<lambda>u. role u = ''admin'')
               (deleteFirst (\<lambda>x. u_id x = i) (users s)))"
      have c: "countAdmins s = n + (if role v = ''admin'' then 1 else 0)"
        unfolding n_def by (rule countAdmins_split [OF Some])
      have d: "countAdmins (snd (deleteUser s i)) = n"
        unfolding n_def by (rule countAdmins_deleteUser [OF Some False])
      from c d p False show ?thesis by (cases "role v = ''admin''") auto
    qed
  qed
qed

theorem deleteUser_keeps_an_admin_witness:
  "userById soleAdminStore 1 = Some rootAdmin \<and> role rootAdmin = ''admin''
   \<and> countAdmins soleAdminStore = 1
   \<and> deleteUser soleAdminStore 1 = (Failure 400 ''Cannot delete the last admin user'', soleAdminStore)
   \<and> userById twoAdminStore 2 = Some secondAdmin \<and> role secondAdmin = ''admin''
   \<and> countAdmins twoAdminStore = 2
   \<and> isSuccess (fst (deleteUser twoAdminStore 2))
   \<and> countAdmins (snd (deleteUser twoAdminStore 2)) = 1"
proof -
  have a: "userById soleAdminStore 1 = Some rootAdmin" "role rootAdmin = ''admin''"
    "countAdmins soleAdminStore = 1"
    by (simp_all add: userById_def soleAdminStore_def rootAdmin_def countAdmins_def)
  have b: "userById twoAdminStore 2 = Some secondAdmin" "role secondAdmin = ''admin''"
    "countAdmins twoAdminStore = 2"
    by (simp_all add: userById_def twoAdminStore_def rootAdmin_def secondAdmin_def
        countAdmins_def)
  show ?thesis
    using a b deleteUser_keeps_an_admin [of soleAdminStore 1 rootAdmin]
      deleteUser_keeps_an_admin [of twoAdminStore 2 secondAdmin]
    by simp
qed

section \<open>The student's own profile: merge\<close>

lemma find_by_own_key:
  "find P xs = Some x \<Longrightarrow> distinct (map f xs) \<Longrightarrow> find (\<lambda>y. f y = f x) xs = Some x"
proof (induction xs)
  case Nil
  then show ?case by simp
next
  case (Cons a xs)
  show ?case
  proof (cases "P a")
    case True
    with Cons.prems show ?thesis by simp
  next
    case False
    with Cons.prems have f: "find P xs = Some x" and d: "distinct (map f xs)" by simp_all
    from f have "x \<in> set xs" by (auto simp: find_Some_iff)
    with Cons.prems(2) have "f a \<noteq> f x" by auto
    with Cons.IH [OF f d] show ?thesis by simp
  qed
qed

lemma own_student_by_id:
  assumes "studentByUserId s uid = Some st" "distinct (map s_id (students s))"
  shows "studentById s (s_id st) = Some st"
  using assms unfolding studentByUserId_def studentById_def by (rule find_by_own_key)

lemma updateOwnProfile_found:
  assumes "studentByUserId s (u_id ru) = Some st" "distinct (map s_id (students s))"
  shows "updateOwnProfile s ru rq =
    (if validateOwnProfile rq \<noteq> [] then (ValidationFailed (validateOwnProfile rq), s)
     else if \<not> validUpdate (castUpdate (ownUpdateData st rq))
     then (ServerError ''Server error while updating profile'', s)
     else (Success 200 (Some ''Profile updated successfully'')
             (applyUpdate (castUpdate (ownUpdateData st rq)) st),
           setStudent s (s_id st) (applyUpdate (castUpdate (ownUpdateData st rq)))))"
  using assms own_student_by_id [OF assms]
  by (simp add: updateOwnProfile_def)

lemma address_ownUpdate:
  "address (applyUpdate (castUpdate (ownUpdateData st rq)) st) =
     (case op_address rq of None \<Rightarrow> address st
      | Some a \<Rightarrow> castAddress (mergeAddress (address st) a))"
  by (simp add: applyUpdate_def castUpdate_fields ownUpdateData_def noUpdate_def
      split: option.splits)


lemma trim_orElse:
  "map_option trim old = old \<Longrightarrow>
   map_option trim (orElse new old) = (case new of None \<Rightarrow> old | Some v \<Rightarrow> Some (trim v))"
  by (simp add: orElse_def split: option.splits)

lemma castAddress_fixed:
  assumes "castAddress a = a"
  shows "map_option trim (street a) = street a" "map_option trim (city a) = city a"
    "map_option trim (state a) = state a" "map_option trim (zipCode a) = zipCode a"
    "map_option trim (country a) = country a"
proof -
  have "street (castAddress a) = street a" "city (castAddress a) = city a"
    "state (castAddress a) = state a" "zipCode (castAddress a) = zipCode a"
    "country (castAddress a) = country a"
    by (simp_all only: assms)
  then show "map_option trim (street a) = street a" "map_option trim (city a) = city a"
    "map_option trim (state a) = state a" "map_option trim (zipCode a) = zipCode a"
    "map_option trim (country a) = country a"
    by (simp_all add: castAddress_def)
qed


lemma merged_address:
  assumes "castAddress stored = stored"
  shows "castAddress (mergeAddress stored a) =
    \<lparr>street = (case street a of None \<Rightarrow> street stored | Some v \<Rightarrow> Some (trim v)),
     city = (case city a of None \<Rightarrow> city stored | Some v \<Rightarrow> Some (trim v)),
     state = (case state a of None \<Rightarrow> state stored | Some v \<Rightarrow> Some (trim v)),
     zipCode = (case zipCode a of None \<Rightarrow> zipCode stored | Some v \<Rightarrow> Some (trim v)),
     country = (case country a of None \<Rightarrow> country stored | Some v \<Rightarrow> Some (trim v))\<rparr>"
  by (simp add: castAddress_def mergeAddress_def trim_orElse castAddress_fixed [OF assms])




text \<open>
  The setters at work on the same Student: a city with white space around it is stored
  without, and a city of white space alone passes the route's \<open>notEmpty\<close> and fails the
  schema's \<open>required\<close>, so that the response is the 500 error and nothing is stored.
\<close>

lemma updateOwnProfile_padded_city:
  "isSuccess (fst (updateOwnProfile aliceStore alice (cityOnly '' X '')))
   \<and> map_option (city \<circ> address)
        (studentById (snd (updateOwnProfile aliceStore alice (cityOnly '' X ''))) 2)
      = Some (Some ''X'')"
proof -
  have h: "studentByUserId aliceStore (u_id alice) = Some sampleStudent"
    by (simp add: studentByUserId_def aliceStore_def alice_def sampleStudent_def)
  have d: "distinct (map s_id (students aliceStore))" by (simp add: aliceStore_def)
  have v: "validateOwnProfile (cityOnly '' X '') = []"
    by (simp add: validateOwnProfile_def cityOnly_def noAddress_def optional_def chain_def
        check_def)
  have m: "castAddress (mergeAddress (address sampleStudent) (noAddress\<lparr>city := Some '' X ''\<rparr>))
           = sampleAddress\<lparr>city := Some ''X''\<rparr>"
    by (simp add: sampleStudent_def merged_address [OF sampleAddress_cast] noAddress_def)
      (simp add: sampleAddress_def trim_def isSpace_def)
  have u: "validUpdate (castUpdate (ownUpdateData sampleStudent (cityOnly '' X '')))"
    by (simp add: validUpdate_def castUpdate_fields ownUpdateData_def cityOnly_def noUpdate_def
        str_def enumV_def m)
      (simp add: validAddress_def required_def sampleAddress_def)
  have g: "studentById aliceStore 2 = Some sampleStudent"
    by (simp add: studentById_def aliceStore_def sampleStudent_def)
  have i: "s_id sampleStudent = 2" by (simp add: sampleStudent_def)
  have a: "op_address (cityOnly '' X '') = Some (noAddress\<lparr>city := Some '' X ''\<rparr>)"
    by (simp add: cityOnly_def)
  have r: "updateOwnProfile aliceStore alice (cityOnly '' X '') =
      (Success 200 (Some ''Profile updated successfully'')
         (applyUpdate (castUpdate (ownUpdateData sampleStudent (cityOnly '' X ''))) sampleStudent),
       setStudent aliceStore 2
         (applyUpdate (castUpdate (ownUpdateData sampleStudent (cityOnly '' X '')))))"
    by (simp add: updateOwnProfile_found [OF h d] v u i)
  show ?thesis
    unfolding r by (simp add: studentById_setStudent g address_ownUpdate a m)
qed

lemma updateOwnProfile_blank_city:
  "validateOwnProfile (cityOnly ''  '') = []
   \<and> updateOwnProfile aliceStore alice (cityOnly ''  '')
       = (ServerError ''Server error while updating profile'', aliceStore)"
proof -
  have h: "studentByUserId aliceStore (u_id alice) = Some sampleStudent"
    by (simp add: studentByUserId_def aliceStore_def alice_def sampleStudent_def)
  have d: "distinct (map s_id (students aliceStore))" by (simp add: aliceStore_def)
  have v: "validateOwnProfile (cityOnly ''  '') = []"
    by (simp add: validateOwnProfile_def cityOnly_def noAddress_def optional_def chain_def
        check_def)
  have m: "castAddress (mergeAddress (address sampleStudent) (noAddress\<lparr>city := Some ''  ''\<rparr>))
           = sampleAddress\<lparr>city := Some []\<rparr>"
    by (simp add: sampleStudent_def merged_address [OF sampleAddress_cast] noAddress_def)
      (simp add: sampleAddress_def trim_def isSpace_def)
  have u: "\<not> validUpdate (castUpdate (ownUpdateData sampleStudent (cityOnly ''  '')))"
    by (simp add: validUpdate_def castUpdate_fields ownUpdateData_def cityOnly_def noUpdate_def
        str_def enumV_def m)
      (simp add: validAddress_def required_def sampleAddress_def)
  show ?thesis
    by (simp add: updateOwnProfile_found [OF h d] v u)
qed

section \<open>The statuses the API writes\<close>

lemma list_all_updateFirst:
  "list_all Q xs \<Longrightarrow> (\<And>x. Q x \<Longrightarrow> Q (g x)) \<Longrightarrow> list_all Q (updateFirst P g xs)"
  by (induction xs) auto

lemma list_all_deleteFirst: "list_all Q xs \<Longrightarrow> list_all Q (deleteFirst P xs)"
  by (induction xs) auto

lemma check_Nil: "check ok msg = [] \<longleftrightarrow> ok"
  by (simp add: check_def)

lemma students_setUser: "students (setUser s i f) = students s"
  by (simp add: setUser_def)

lemma students_saveUser: "saveUser e s u = Some s1 \<Longrightarrow> students s1 = students s"
  by (auto simp: saveUser_def split: if_splits)

lemma students_saveStudent:
  "saveStudent s st = Some s1 \<Longrightarrow> students s1 = students s @ [st]"
  by (auto simp: saveStudent_def split: if_splits)

lemma status_newStudent: "status (newStudent now i uid sid dob gen ph a ac g c) = ''active''"
  by (simp add: newStudent_def)

lemma active_allowed: "''active'' \<in> set allowedStatuses"
  by (simp add: allowedStatuses_def)

lemma statusesAllowed_snoc:
  "statusesAllowed s \<Longrightarrow> students s1 = students s @ [st] \<Longrightarrow> status st = ''active'' \<Longrightarrow>
   statusesAllowed s1"
  by (simp add: statusesAllowed_def active_allowed)

lemma statusesAllowed_students:
  "students s' = students s \<Longrightarrow> statusesAllowed s \<Longrightarrow> statusesAllowed s'"
  by (simp add: statusesAllowed_def)

lemma statusesAllowed_registerWrite:
  assumes "statusesAllowed s"
  shows "statusesAllowed (snd (registerWrite e now s rq))"
proof (cases "saveUser e s \<lparr>u_id = nextId s, username = rq_username rq, email = rq_email rq,
                password = rq_password rq, firstName = rq_firstName rq,
                lastName = rq_lastName rq, role = rq_role rq,
                isActive = isActiveDefault e, lastLogin = None\<rparr>")
  case None
  with assms show ?thesis by (simp add: registerWrite_def Let_def)
next
  case (Some s1)
  have a1: "statusesAllowed s1"
    by (rule statusesAllowed_students [OF students_saveUser [OF Some] assms])
  show ?thesis
  proof (cases "rq_role rq = ''student''")
    case False
    with Some a1 show ?thesis by (simp add: registerWrite_def Let_def)
  next
    case True
    show ?thesis
    proof (cases "saveStudent s1 (registeredStudent now (nextId s1) (nextId s)
                           (case rq_studentData rq of None \<Rightarrow> noStudentData | Some sd \<Rightarrow> sd))")
      case None
      with Some True a1 show ?thesis by (simp add: registerWrite_def Let_def)
    next
      case (Some s2)
      have "statusesAllowed s2"
        by (rule statusesAllowed_snoc [OF a1 students_saveStudent [OF Some]])
          (simp add: registeredStudent_def status_newStudent)
      with \<open>saveUser e s _ = Some s1\<close> True Some show ?thesis
        by (simp add: registerWrite_def Let_def)
    qed
  qed
qed

lemma statusesAllowed_register:
  "statusesAllowed s \<Longrightarrow> statusesAllowed (snd (register e now s hdr rq))"
  by (simp add: register_def statusesAllowed_registerWrite split: option.splits)

lemma students_login: "students (snd (login e now s em pw)) = students s"
  by (auto simp: login_def students_setUser split: option.splits)

lemma students_updateAuthProfile: "students (snd (updateAuthProfile e s u rq)) = students s"
  by (auto simp: updateAuthProfile_def students_setUser split: option.splits)

lemma students_changePassword: "students (snd (changePassword e s u cur new)) = students s"
  by (auto simp: changePassword_def students_setUser split: option.splits)

lemma students_createUser:
  "students (snd (createUser e s un em pw fname lname rl)) = students s"
  by (auto simp: createUser_def dest: students_saveUser split: option.splits)

lemma students_updateUser: "students (snd (updateUser e s i rq)) = students s"
  by (auto simp: updateUser_def students_setUser split: option.splits)

lemma statusesAllowed_deleteUser:
  "statusesAllowed s \<Longrightarrow> statusesAllowed (snd (deleteUser s i))"
  by (auto simp: deleteUser_def statusesAllowed_def list_all_deleteFirst split: option.splits)

lemma statusesAllowed_adminCreateStudent:
  assumes "statusesAllowed s"
  shows "statusesAllowed (snd (adminCreateStudent e now s rq))"
proof (cases "saveUser e s (createdUser e s rq)")
  case None
  with assms show ?thesis by (simp add: adminCreateStudent_def)
next
  case (Some s1)
  have a1: "statusesAllowed s1"
    by (rule statusesAllowed_students [OF students_saveUser [OF Some] assms])
  show ?thesis
  proof (cases "saveStudent s1 (createdStudent now s1 (nextId s) rq)")
    case None
    with Some assms a1 show ?thesis by (simp add: adminCreateStudent_def)
  next
    case (Some s2)
    have "statusesAllowed s2"
      by (rule statusesAllowed_snoc [OF a1 students_saveStudent [OF Some]])
        (simp add: createdStudent_def status_newStudent)
    with \<open>saveUser e s _ = Some s1\<close> Some assms show ?thesis
      by (simp add: adminCreateStudent_def)
  qed
qed

lemma validated_status:
  "validateUpdateStudent e rq = [] \<Longrightarrow> us_status rq = Some v \<Longrightarrow> v \<in> set allowedStatuses"
  by (simp add: validateUpdateStudent_def optional_def check_Nil)

lemma status_studentUpdate:
  assumes "validateUpdateStudent e rq = []" "status x \<in> set allowedStatuses"
  shows "status (applyUpdate (castUpdate (studentUpdateData now st rq)) x)
           \<in> set allowedStatuses"
  using assms validated_status [OF assms(1)]
  unfolding status_castUpdate
  by (auto simp: applyUpdate_def studentUpdateData_def split: option.splits)

lemma statusesAllowed_setStudent:
  "statusesAllowed s \<Longrightarrow> (\<And>x. status x \<in> set allowedStatuses \<Longrightarrow> status (f x) \<in> set allowedStatuses)
   \<Longrightarrow> statusesAllowed (setStudent s i f)"
  by (simp add: statusesAllowed_def setStudent_def list_all_updateFirst)

lemma statusesAllowed_setUser: "statusesAllowed s \<Longrightarrow> statusesAllowed (setUser s i f)"
  by (simp add: statusesAllowed_def setUser_def)

lemma statusesAllowed_adminUpdateStudent:
  assumes "statusesAllowed s"
  shows "statusesAllowed (snd (adminUpdateStudent e now s i rq))"
proof (cases "validateUpdateStudent e rq = []")
  case False
  with assms show ?thesis by (simp add: adminUpdateStudent_def)
next
  case True
  show ?thesis
  proof (cases "studentById s i")
    case None
    with True assms show ?thesis by (simp add: adminUpdateStudent_def)
  next
    case (Some st)
    have "statusesAllowed
            (setStudent s1 i (applyUpdate (castUpdate (studentUpdateData now st rq))))"
      if "statusesAllowed s1" for s1
      using that by (rule statusesAllowed_setStudent) (rule status_studentUpdate [OF True])
    with True Some assms show ?thesis
      by (simp add: adminUpdateStudent_def Let_def statusesAllowed_setUser)
  qed
qed

lemma statusesAllowed_adminDeleteStudent:
  "statusesAllowed s \<Longrightarrow> statusesAllowed (snd (adminDeleteStudent s i))"
  by (auto simp: adminDeleteStudent_def statusesAllowed_def list_all_deleteFirst
      split: option.splits)

lemma statusesAllowed_adminSetStatus:
  assumes "statusesAllowed s"
  shows "statusesAllowed (snd (adminSetStatus now s i new))"
proof (cases "new \<in> set allowedStatuses")
  case False
  with assms show ?thesis by (simp add: adminSetStatus_def)
next
  case True
  show ?thesis
  proof (cases "studentById s i")
    case None
    with True assms show ?thesis by (simp add: adminSetStatus_def)
  next
    case (Some st)
    have "statusesAllowed (setStudent s i (applyUpdate (statusUpdateData now st new)))"
      using assms by (rule statusesAllowed_setStudent) (simp add: status_statusUpdate True)
    then show ?thesis by (simp add: adminSetStatus_found(1) [OF Some True])
  qed
qed

lemma status_ownUpdate:
  "status (applyUpdate (castUpdate (ownUpdateData st rq)) x) = status x"
  by (simp add: status_castUpdate) (simp add: applyUpdate_def ownUpdateData_def noUpdate_def)

lemma statusesAllowed_updateOwnProfile:
  assumes "statusesAllowed s"
  shows "statusesAllowed (snd (updateOwnProfile s u rq))"
proof -
  have "statusesAllowed (setStudent s j (applyUpdate (castUpdate (ownUpdateData st rq))))"
    for j st
    using assms by (rule statusesAllowed_setStudent) (simp add: status_ownUpdate)
  with assms show ?thesis
    by (simp add: updateOwnProfile_def split: option.splits)
qed

lemma statusesAllowed_guarded:
  "statusesAllowed s \<Longrightarrow> (\<And>u. statusesAllowed (run u)) \<Longrightarrow>
   statusesAllowed (guarded e s allowed hdr run)"
  by (simp add: guarded_def split: sum.splits)

lemma statusesAllowed_apiStore:
  "statusesAllowed s \<Longrightarrow> statusesAllowed (apiStore e now s c)"
proof (cases c)
  case (Register hdr rq)
  assume "statusesAllowed s"
  with Register show ?thesis by (simp add: statusesAllowed_register)
next
  case (Login em pw)
  assume "statusesAllowed s"
  with Login show ?thesis by (simp add: statusesAllowed_students [OF students_login])
next
  case (UpdateAuthProfile hdr rq)
  assume "statusesAllowed s"
  with UpdateAuthProfile show ?thesis
    by (simp add: statusesAllowed_guarded statusesAllowed_students [OF students_updateAuthProfile])
next
  case (ChangePassword hdr cur new)
  assume "statusesAllowed s"
  with ChangePassword show ?thesis
    by (simp add: statusesAllowed_guarded statusesAllowed_students [OF students_changePassword])
next
  case (CreateUser hdr un em pw fname lname rl)
  assume "statusesAllowed s"
  with CreateUser show ?thesis
    by (simp add: statusesAllowed_guarded statusesAllowed_students [OF students_createUser])
next
  case (UpdateUser hdr i rq)
  assume "statusesAllowed s"
  with UpdateUser show ?thesis
    by (simp add: statusesAllowed_guarded statusesAllowed_students [OF students_updateUser])
next
  case (DeleteUser hdr i)
  assume "statusesAllowed s"
  with DeleteUser show ?thesis
    by (simp add: statusesAllowed_guarded statusesAllowed_deleteUser)
next
  case (CreateStudent hdr rq)
  assume "statusesAllowed s"
  with CreateStudent show ?thesis
    by (simp add: statusesAllowed_guarded statusesAllowed_adminCreateStudent)
next
  case (UpdateStudent hdr i rq)
  assume "statusesAllowed s"
  with UpdateStudent show ?thesis
    by (simp add: statusesAllowed_guarded statusesAllowed_adminUpdateStudent)
next
  case (DeleteStudent hdr i)
  assume "statusesAllowed s"
  with DeleteStudent show ?thesis
    by (simp add: statusesAllowed_guarded statusesAllowed_adminDeleteStudent)
next
  case (SetStatus hdr i new)
  assume "statusesAllowed s"
  with SetStatus show ?thesis
    by (simp add: statusesAllowed_guarded statusesAllowed_adminSetStatus)
next
  case (UpdateOwnProfile hdr rq)
  assume "statusesAllowed s"
  with UpdateOwnProfile show ?thesis
    by (simp add: statusesAllowed_guarded statusesAllowed_updateOwnProfile)
qed

lemma statusesAllowed_runCalls:
  "statusesAllowed s \<Longrightarrow> statusesAllowed (runCalls s cs)"
  by (induction cs arbitrary: s) (auto simp: statusesAllowed_apiStore)

lemma adminUpdateStudent_bad_status:
  assumes "us_status rq = Some new" "new \<notin> set allowedStatuses"
  shows "\<exists>errs. adminUpdateStudent e now s i rq = (ValidationFailed errs, s)
           \<and> ''Invalid status'' \<in> set errs"
proof -
  have "''Invalid status'' \<in> set (validateUpdateStudent e rq)"
    using assms by (simp add: validateUpdateStudent_def optional_def check_def)
  then show ?thesis by (auto simp: adminUpdateStudent_def)
qed

lemma adminListStudents_bad_status:
  assumes "q_status q = Some new" "new \<notin> set allowedStatuses"
  shows "\<exists>errs. adminListStudents e s q = ValidationFailed errs
           \<and> ''Invalid status'' \<in> set errs"
proof -
  have "''Invalid status'' \<in> set (validateList q)"
    using assms by (simp add: validateList_def optional_def check_def)
  then show ?thesis by (auto simp: adminListStudents_def)
qed

text \<open>
  C10 (the API writes four of the six statuses of the schema). The schema admits
  \<open>transferred\<close> and \<open>dropped\<close> besides \<open>active\<close>, \<open>inactive\<close>, \<open>suspended\<close> and
  \<open>graduated\<close>, but a status outside these four is refused with a validation error
  ("Invalid status") by the status route, by the admin's update route and by the list filter,
  and the store is unchanged. So from a store in which every Student has one of the four
  statuses (the empty store, say), every sequence of API requests leads to a store in which
  every Student has one of the four.
\<close>

theorem statuses_written_by_api:
  "(new \<notin> set allowedStatuses \<longrightarrow>
      adminSetStatus now s i new = (ValidationFailed [''Invalid status''], s))
   \<and> (us_status rq = Some new \<and> new \<notin> set allowedStatuses \<longrightarrow>
        (\<exists>errs. adminUpdateStudent e now s i rq = (ValidationFailed errs, s)
           \<and> ''Invalid status'' \<in> set errs))
   \<and> (q_status q = Some new \<and> new \<notin> set allowedStatuses \<longrightarrow>
        (\<exists>errs. adminListStudents e s q = ValidationFailed errs
           \<and> ''Invalid status'' \<in> set errs))
   \<and> set allowedStatuses = {''active'', ''inactive'', ''suspended'', ''graduated''}
   \<and> set statuses = set allowedStatuses \<union> {''transferred'', ''dropped''}
   \<and> (statusesAllowed s \<longrightarrow> statusesAllowed (runCalls s calls))"
proof (intro conjI impI)
  assume "new \<notin> set allowedStatuses"
  then show "adminSetStatus now s i new = (ValidationFailed [''Invalid status''], s)"
    by (simp add: adminSetStatus_def)
next
  assume "us_status rq = Some new \<and> new \<notin> set allowedStatuses"
  then show "\<exists>errs. adminUpdateStudent e now s i rq = (ValidationFailed errs, s)
           \<and> ''Invalid status'' \<in> set errs"
    by (simp add: adminUpdateStudent_bad_status)
next
  assume "q_status q = Some new \<and> new \<notin> set allowedStatuses"
  then show "\<exists>errs. adminListStudents e s q = ValidationFailed errs
           \<and> ''Invalid status'' \<in> set errs"
    by (simp add: adminListStudents_bad_status)
next
  show "set allowedStatuses = {''active'', ''inactive'', ''suspended'', ''graduated''}"
    by (simp add: allowedStatuses_def)
next
  show "set statuses = set allowedStatuses \<union> {''transferred'', ''dropped''}"
    by (auto simp: allowedStatuses_def statuses_def)
next
  assume "statusesAllowed s"
  then show "statusesAllowed (runCalls s calls)" by (rule statusesAllowed_runCalls)
qed

theorem statuses_written_by_api_witness:
  "''dropped'' \<notin> set allowedStatuses
   \<and> adminSetStatus 9 campusStore 4 ''dropped''
       = (ValidationFailed [''Invalid status''], campusStore)
   \<and> us_status (statusOnly ''dropped'') = Some ''dropped''
   \<and> fst (adminUpdateStudent demoEnv 9 campusStore 4 (statusOnly ''dropped''))
       = ValidationFailed [''Invalid status'']
   \<and> statusesAllowed campusStore
   \<and> statusesAllowed (runCalls campusStore
        [(demoEnv, 9, SetStatus (Some ''Bearer 1'') 4 ''dropped''),
         (demoEnv, 10, UpdateStudent (Some ''Bearer 1'') 4 (statusOnly ''transferred'')),
         (demoEnv, 11, SetStatus (Some ''Bearer 1'') 4 ''graduated'')])"
proof -
  have a: "''dropped'' \<notin> set allowedStatuses" by (simp add: allowedStatuses_def)
  have b: "us_status (statusOnly ''dropped'') = Some ''dropped''" by (simp add: statusOnly_def)
  have c: "statusesAllowed campusStore"
    by (simp add: statusesAllowed_def campusStore_def sampleStudent_def allowedStatuses_def)
  have d: "fst (adminUpdateStudent demoEnv 9 campusStore 4 (statusOnly ''dropped''))
       = ValidationFailed [''Invalid status'']"
    by (simp add: adminUpdateStudent_def validateUpdateStudent_def validateProfile_def
        statusOnly_def optional_def chain_def check_def allowedStatuses_def)
  note t = statuses_written_by_api [of "''dropped''" 9 campusStore 4 "statusOnly ''dropped''"
      demoEnv "undefined"
      "[(demoEnv, 9, SetStatus (Some ''Bearer 1'') 4 ''dropped''),
        (demoEnv, 10, UpdateStudent (Some ''Bearer 1'') 4 (statusOnly ''transferred'')),
        (demoEnv, 11, SetStatus (Some ''Bearer 1'') 4 ''graduated'')]"]
  from t a have 1: "adminSetStatus 9 campusStore 4 ''dropped''
       = (ValidationFailed [''Invalid status''], campusStore)" by blast
  from t c have 2: "statusesAllowed (runCalls campusStore
        [(demoEnv, 9, SetStatus (Some ''Bearer 1'') 4 ''dropped''),
         (demoEnv, 10, UpdateStudent (Some ''Bearer 1'') 4 (statusOnly ''transferred'')),
         (demoEnv, 11, SetStatus (Some ''Bearer 1'') 4 ''graduated'')])" by blast
  from a b c d 1 2 show ?thesis by blast
qed

section \<open>The setters in the store\<close>

text \<open>
  Every write of the API to a Student goes through the setters: from a store in which the
  address and the emergency contact of every Student are as the setters leave them (the empty
  store, say), every sequence of API requests leads to such a store.
\<close>

lemma normalised_newStudent: "normalised (newStudent now i uid sid dob gen ph a ac g c)"
  by (simp add: normalised_def newStudent_def castAddress_castAddress
      castEmergencyContact_twice)

lemma normalised_castUpdate: "normalised x \<Longrightarrow> normalised (applyUpdate (castUpdate d) x)"
  by (cases "su_address d"; cases "su_emergencyContact d")
    (simp_all add: normalised_def applyUpdate_def castUpdate_fields castAddress_castAddress
      castEmergencyContact_twice)

lemma normalised_statusUpdate:
  "normalised x \<Longrightarrow> normalised (applyUpdate (statusUpdateData now st new) x)"
  by (simp add: normalised_def applyUpdate_def statusUpdateData_def noUpdate_def)

lemma allNormalised_students:
  "students s' = students s \<Longrightarrow> allNormalised s \<Longrightarrow> allNormalised s'"
  by (simp add: allNormalised_def)

lemma allNormalised_snoc:
  "allNormalised s \<Longrightarrow> students s1 = students s @ [st] \<Longrightarrow> normalised st \<Longrightarrow> allNormalised s1"
  by (simp add: allNormalised_def)

lemma allNormalised_setStudent:
  "allNormalised s \<Longrightarrow> (\<And>x. normalised x \<Longrightarrow> normalised (f x)) \<Longrightarrow>
   allNormalised (setStudent s i f)"
  by (simp add: allNormalised_def setStudent_def list_all_updateFirst)

lemma allNormalised_setUser: "allNormalised s \<Longrightarrow> allNormalised (setUser s i f)"
  by (simp add: allNormalised_def setUser_def)

lemma allNormalised_registerWrite:
  assumes "allNormalised s"
  shows "allNormalised (snd (registerWrite e now s rq))"
proof (cases "saveUser e s \<lparr>u_id = nextId s, username = rq_username rq, email = rq_email rq,
                password = rq_password rq, firstName = rq_firstName rq,
                lastName = rq_lastName rq, role = rq_role rq,
                isActive = isActiveDefault e, lastLogin = None\<rparr>")
  case None
  with assms show ?thesis by (simp add: registerWrite_def Let_def)
next
  case (Some s1)
  have a1: "allNormalised s1"
    by (rule allNormalised_students [OF students_saveUser [OF Some] assms])
  show ?thesis
  proof (cases "rq_role rq = ''student''")
    case False
    with Some a1 show ?thesis by (simp add: registerWrite_def Let_def)
  next
    case True
    show ?thesis
    proof (cases "saveStudent s1 (registeredStudent now (nextId s1) (nextId s)
                           (case rq_studentData rq of None \<Rightarrow> noStudentData | Some sd \<Rightarrow> sd))")
      case None
      with Some True a1 show ?thesis by (simp add: registerWrite_def Let_def)
    next
      case (Some s2)
      have "allNormalised s2"
        by (rule allNormalised_snoc [OF a1 students_saveStudent [OF Some]])
          (simp add: registeredStudent_def normalised_newStudent)
      with \<open>saveUser e s _ = Some s1\<close> True Some show ?thesis
        by (simp add: registerWrite_def Let_def)
    qed
  qed
qed

lemma allNormalised_register:
  "allNormalised s \<Longrightarrow> allNormalised (snd (register e now s hdr rq))"
  by (simp add: register_def allNormalised_registerWrite split: option.splits)

lemma allNormalised_deleteUser:
  "allNormalised s \<Longrightarrow> allNormalised (snd (deleteUser s i))"
  by (auto simp: deleteUser_def allNormalised_def list_all_deleteFirst split: option.splits)

lemma allNormalised_adminCreateStudent:
  assumes "allNormalised s"
  shows "allNormalised (snd (adminCreateStudent e now s rq))"
proof (cases "saveUser e s (createdUser e s rq)")
  case None
  with assms show ?thesis by (simp add: adminCreateStudent_def)
next
  case (Some s1)
  have a1: "allNormalised s1"
    by (rule allNormalised_students [OF students_saveUser [OF Some] assms])
  show ?thesis
  proof (cases "saveStudent s1 (createdStudent now s1 (nextId s) rq)")
    case None
    with Some assms a1 show ?thesis by (simp add: adminCreateStudent_def)
  next
    case (Some s2)
    have "allNormalised s2"
      by (rule allNormalised_snoc [OF a1 students_saveStudent [OF Some]])
        (simp add: createdStudent_def normalised_newStudent)
    with \<open>saveUser e s _ = Some s1\<close> Some assms show ?thesis
      by (simp add: adminCreateStudent_def)
  qed
qed

lemma allNormalised_adminUpdateStudent:
  assumes "allNormalised s"
  shows "allNormalised (snd (adminUpdateStudent e now s i rq))"
proof (cases "studentById s i")
  case None
  with assms show ?thesis by (simp add: adminUpdateStudent_def)
next
  case (Some st)
  have "allNormalised (setStudent s1 i (applyUpdate (castUpdate (studentUpdateData now st rq))))"
    if "allNormalised s1" for s1
    using that by (rule allNormalised_setStudent) (rule normalised_castUpdate)
  with Some assms show ?thesis
    by (simp add: adminUpdateStudent_def Let_def allNormalised_setUser)
qed

lemma allNormalised_adminDeleteStudent:
  "allNormalised s \<Longrightarrow> allNormalised (snd (adminDeleteStudent s i))"
  by (auto simp: adminDeleteStudent_def allNormalised_def list_all_deleteFirst
      split: option.splits)

lemma allNormalised_adminSetStatus:
  assumes "allNormalised s"
  shows "allNormalised (snd (adminSetStatus now s i new))"
proof (cases "new \<in> set allowedStatuses")
  case False
  with assms show ?thesis by (simp add: adminSetStatus_def)
next
  case True
  show ?thesis
  proof (cases "studentById s i")
    case None
    with True assms show ?thesis by (simp add: adminSetStatus_def)
  next
    case (Some st)
    have "allNormalised (setStudent s i (applyUpdate (statusUpdateData now st new)))"
      using assms by (rule allNormalised_setStudent) (rule normalised_statusUpdate)
    then show ?thesis by (simp add: adminSetStatus_found(1) [OF Some True])
  qed
qed

lemma allNormalised_updateOwnProfile:
  assumes "allNormalised s"
  shows "allNormalised (snd (updateOwnProfile s u rq))"
proof -
  have "allNormalised (setStudent s j (applyUpdate (castUpdate (ownUpdateData st rq))))"
    for j st
    using assms by (rule allNormalised_setStudent) (rule normalised_castUpdate)
  with assms show ?thesis
    by (simp add: updateOwnProfile_def split: option.splits)
qed

lemma allNormalised_guarded:
  "allNormalised s \<Longrightarrow> (\<And>u. allNormalised (run u)) \<Longrightarrow>
   allNormalised (guarded e s allowed hdr run)"
  by (simp add: guarded_def split: sum.splits)

lemma allNormalised_apiStore:
  assumes "allNormalised s"
  shows "allNormalised (apiStore e now s c)"
proof (cases c)
  case (Register hdr rq)
  with assms show ?thesis by (simp add: allNormalised_register)
next
  case (Login em pw)
  with assms show ?thesis by (simp add: allNormalised_students [OF students_login])
next
  case (UpdateAuthProfile hdr rq)
  with assms show ?thesis
    by (simp add: allNormalised_guarded allNormalised_students [OF students_updateAuthProfile])
next
  case (ChangePassword hdr cur new)
  with assms show ?thesis
    by (simp add: allNormalised_guarded allNormalised_students [OF students_changePassword])
next
  case (CreateUser hdr un em pw fname lname rl)
  with assms show ?thesis
    by (simp add: allNormalised_guarded allNormalised_students [OF students_createUser])
next
  case (UpdateUser hdr i rq)
  with assms show ?thesis
    by (simp add: allNormalised_guarded allNormalised_students [OF students_updateUser])
next
  case (DeleteUser hdr i)
  with assms show ?thesis by (simp add: allNormalised_guarded allNormalised_deleteUser)
next
  case (CreateStudent hdr rq)
  with assms show ?thesis by (simp add: allNormalised_guarded allNormalised_adminCreateStudent)
next
  case (UpdateStudent hdr i rq)
  with assms show ?thesis by (simp add: allNormalised_guarded allNormalised_adminUpdateStudent)
next
  case (DeleteStudent hdr i)
  with assms show ?thesis by (simp add: allNormalised_guarded allNormalised_adminDeleteStudent)
next
  case (SetStatus hdr i new)
  with assms show ?thesis by (simp add: allNormalised_guarded allNormalised_adminSetStatus)
next
  case (UpdateOwnProfile hdr rq)
  with assms show ?thesis by (simp add: allNormalised_guarded allNormalised_updateOwnProfile)
qed

lemma allNormalised_runCalls: "allNormalised s \<Longrightarrow> allNormalised (runCalls s cs)"
  by (induction cs arbitrary: s) (auto simp: allNormalised_apiStore)

lemma allNormalised_emptyStore: "allNormalised emptyStore"
  by (simp add: allNormalised_def emptyStore_def)

lemma allNormalised_student:
  "allNormalised s \<Longrightarrow> studentByUserId s uid = Some st \<Longrightarrow> normalised st"
  by (auto simp: allNormalised_def studentByUserId_def list_all_iff find_Some_iff)

section \<open>Creating a student\<close>

lemma saveUser_fresh:
  "\<not> userTaken s (email u) (username u) \<Longrightarrow>
   saveUser e s u = Some (s\<lparr>users := users s @ [u\<lparr>password := hashPassword e (password u)\<rparr>],
                            nextId := Suc (nextId s)\<rparr>)"
  by (simp add: saveUser_def)

lemma createdUser_fields:
  "email (createdUser e s rq) = cs_email rq" "username (createdUser e s rq) = cs_username rq"
  "password (createdUser e s rq) = cs_password rq"
  by (simp_all add: createdUser_def)

lemma saveStudent_None_iff:
  "saveStudent s st = None \<longleftrightarrow>
     \<not> validStudent st \<or> list_ex (\<lambda>x. studentId x = studentId st \<or> userId x = userId st) (students s)"
  by (simp add: saveStudent_def)

lemma saveStudent_Some:
  "saveStudent s st \<noteq> None \<Longrightarrow>
   saveStudent s st = Some (s\<lparr>students := students s @ [st], nextId := Suc (nextId s)\<rparr>)"
  by (simp add: saveStudent_def split: if_splits)

lemma adminCreateStudent_writes:
  assumes "validateCreateStudent e rq = []" "\<not> userTaken s (cs_email rq) (cs_username rq)"
    "\<not> list_ex (\<lambda>st. studentId st = trim (cs_studentId rq)) (students s)"
  shows "adminCreateStudent e now s rq =
    (case saveStudent
            (s\<lparr>users := users s @ [(createdUser e s rq)\<lparr>password := hashPassword e (cs_password rq)\<rparr>],
               nextId := Suc (nextId s)\<rparr>)
            (createdStudent now
               (s\<lparr>users := users s @ [(createdUser e s rq)\<lparr>password := hashPassword e (cs_password rq)\<rparr>],
                  nextId := Suc (nextId s)\<rparr>) (nextId s) rq) of
       None \<Rightarrow> (ServerError ''Server error while creating student'',
                 s\<lparr>users := users s @ [(createdUser e s rq)\<lparr>password := hashPassword e (cs_password rq)\<rparr>],
                   nextId := Suc (nextId s)\<rparr>)
     | Some s2 \<Rightarrow> (Success 201 (Some ''Student created successfully'')
          (createdStudent now
               (s\<lparr>users := users s @ [(createdUser e s rq)\<lparr>password := hashPassword e (cs_password rq)\<rparr>],
                  nextId := Suc (nextId s)\<rparr>) (nextId s) rq), s2))"
  using assms
  by (simp add: adminCreateStudent_def saveUser_fresh createdUser_fields)

lemma newcomerCgpa11_valid: "validateCreateStudent demoEnv newcomerCgpa11 = []"
  by (simp add: validateCreateStudent_def newcomerCgpa11_def newcomer_def check_def
      optional_def demoEnv_def genders_def phonePattern_def isDigit_def intIn_def inRange_def
      str_def sampleAddress_def sampleAcademic_def sampleGuardian_def sampleContact_def)

lemma newcomerCgpa11_rejected:
  "\<not> validStudent (createdStudent now s1 uid newcomerCgpa11)"
  by (simp add: validStudent_def createdStudent_def newStudent_def newcomerCgpa11_def
      newcomer_def validAcademicInfo_def castAcademicInfo_def maxV_def orElse_def
      sampleAcademic_def)

text \<open>
  C4, as stated (the User does not remain when the StudentRecord cannot be created), fails:
  the handler saves the User, then the Student, and has no rollback. A request that passes
  the route's validation with \<open>academicInfo.cgpa = 11\<close> (the route does not check
  \<open>cgpa\<close> on creation, the schema allows at most 10) is answered with status 500 after
  the User has been saved: the new User is in the store and no Student is.
\<close>

theorem adminCreateStudent_orphan_user_counterexample:
  "validateCreateStudent demoEnv newcomerCgpa11 = []
   \<and> fst (adminCreateStudent demoEnv 5 soleAdminStore newcomerCgpa11)
       = ServerError ''Server error while creating student''
   \<and> map username (users (snd (adminCreateStudent demoEnv 5 soleAdminStore newcomerCgpa11)))
       = [''admin'', ''carol'']
   \<and> students (snd (adminCreateStudent demoEnv 5 soleAdminStore newcomerCgpa11)) = []"
proof -
  have t: "\<not> userTaken soleAdminStore (cs_email newcomerCgpa11) (cs_username newcomerCgpa11)"
    by (simp add: userTaken_def soleAdminStore_def rootAdmin_def newcomerCgpa11_def newcomer_def)
  have i: "\<not> list_ex (\<lambda>st. studentId st = trim (cs_studentId newcomerCgpa11))
                (students soleAdminStore)"
    by (simp add: soleAdminStore_def)
  show ?thesis
    by (simp add: adminCreateStudent_writes [OF newcomerCgpa11_valid t i] newcomerCgpa11_valid
        saveStudent_def newcomerCgpa11_rejected)
      (simp add: soleAdminStore_def rootAdmin_def createdUser_def newcomerCgpa11_def newcomer_def)
qed

text \<open>
  C4, amended (two checks, then two writes without rollback). For a request that passes the
  route's validation, \<open>POST /api/admin/students\<close> makes both uniqueness checks before it
  writes: when the username or e-mail is taken, or else when the studentId (trimmed, as the
  schema stores it) is taken, the response is 400 and the store is unchanged. Otherwise the
  User is written, and then either the Student is written too, under the trimmed studentId,
  and the response is a success, or the write of the Student fails and the response is the
  500 error, with the created User still in the store and no Student added.
\<close>

theorem adminCreateStudent_two_writes:
  assumes "validateCreateStudent e rq = []"
  shows
   "(userTaken s (cs_email rq) (cs_username rq) \<longrightarrow>
       adminCreateStudent e now s rq
         = (Failure 400 ''User with this email or username already exists'', s))
    \<and> (\<not> userTaken s (cs_email rq) (cs_username rq)
        \<and> list_ex (\<lambda>st. studentId st = trim (cs_studentId rq)) (students s) \<longrightarrow>
       adminCreateStudent e now s rq = (Failure 400 ''Student with this ID already exists'', s))
    \<and> (\<not> userTaken s (cs_email rq) (cs_username rq)
        \<and> \<not> list_ex (\<lambda>st. studentId st = trim (cs_studentId rq)) (students s) \<longrightarrow>
       users (snd (adminCreateStudent e now s rq))
         = users s @ [(createdUser e s rq)\<lparr>password := hashPassword e (cs_password rq)\<rparr>]
       \<and> (isSuccess (fst (adminCreateStudent e now s rq))
            \<and> (\<exists>st. students (snd (adminCreateStudent e now s rq)) = students s @ [st]
                  \<and> userId st = nextId s \<and> studentId st = trim (cs_studentId rq))
          \<or> fst (adminCreateStudent e now s rq)
               = ServerError ''Server error while creating student''
            \<and> students (snd (adminCreateStudent e now s rq)) = students s))"
proof (intro conjI impI)
  assume "userTaken s (cs_email rq) (cs_username rq)"
  with assms show "adminCreateStudent e now s rq
         = (Failure 400 ''User with this email or username already exists'', s)"
    by (simp add: adminCreateStudent_def)
next
  assume "\<not> userTaken s (cs_email rq) (cs_username rq)
        \<and> list_ex (\<lambda>st. studentId st = trim (cs_studentId rq)) (students s)"
  with assms show "adminCreateStudent e now s rq
      = (Failure 400 ''Student with this ID already exists'', s)"
    by (simp add: adminCreateStudent_def)
next
  assume a: "\<not> userTaken s (cs_email rq) (cs_username rq)
        \<and> \<not> list_ex (\<lambda>st. studentId st = trim (cs_studentId rq)) (students s)"
  let ?s1 = "s\<lparr>users := users s @ [(createdUser e s rq)\<lparr>password := hashPassword e (cs_password rq)\<rparr>],
               nextId := Suc (nextId s)\<rparr>"
  let ?st = "createdStudent now ?s1 (nextId s) rq"
  have w: "adminCreateStudent e now s rq =
    (case saveStudent ?s1 ?st of
       None \<Rightarrow> (ServerError ''Server error while creating student'', ?s1)
     | Some s2 \<Rightarrow> (Success 201 (Some ''Student created successfully'') ?st, s2))"
    using assms a by (simp add: adminCreateStudent_writes)
  have f: "userId ?st = nextId s" "studentId ?st = trim (cs_studentId rq)"
    by (simp_all add: createdStudent_def newStudent_def)
  show "users (snd (adminCreateStudent e now s rq))
         = users s @ [(createdUser e s rq)\<lparr>password := hashPassword e (cs_password rq)\<rparr>]"
  proof (cases "saveStudent ?s1 ?st = None")
    case True
    then show ?thesis by (simp add: w)
  next
    case False
    from saveStudent_Some [OF False] show ?thesis by (simp add: w)
  qed
  show "isSuccess (fst (adminCreateStudent e now s rq))
            \<and> (\<exists>st. students (snd (adminCreateStudent e now s rq)) = students s @ [st]
                  \<and> userId st = nextId s \<and> studentId st = trim (cs_studentId rq))
          \<or> fst (adminCreateStudent e now s rq)
               = ServerError ''Server error while creating student''
            \<and> students (snd (adminCreateStudent e now s rq)) = students s"
  proof (cases "saveStudent ?s1 ?st = None")
    case True
    then show ?thesis by (simp add: w)
  next
    case False
    from saveStudent_Some [OF False] f show ?thesis by (simp add: w)
  qed
qed

lemma newcomer_valid: "validateCreateStudent demoEnv newcomer = []"
  by (simp add: validateCreateStudent_def newcomer_def check_def
      optional_def demoEnv_def genders_def phonePattern_def isDigit_def intIn_def inRange_def
      str_def sampleAddress_def sampleAcademic_def sampleGuardian_def sampleContact_def)

lemma newcomer_accepted: "validStudent (createdStudent now s1 uid newcomer)"
proof -
  have a: "castAddress (sampleAddress\<lparr>country := orElse (country sampleAddress) (Some ''India'')\<rparr>)
           = sampleAddress"
    by (simp add: castAddress_def sampleAddress_def orElse_def trim_def isSpace_def)
  have b: "castAcademicInfo (sampleAcademic\<lparr>
        specialization := orElse (specialization sampleAcademic) (Some []),
        cgpa := orElse (cgpa sampleAcademic) (Some 0),
        totalCredits := orElse (totalCredits sampleAcademic) (Some 0),
        earnedCredits := orElse (earnedCredits sampleAcademic) (Some 0),
        attendancePercentage := orElse (attendancePercentage sampleAcademic) (Some 0)\<rparr>)
           = sampleAcademic"
    by (simp add: castAcademicInfo_def sampleAcademic_def orElse_def trim_def isSpace_def)
  have c: "trim ''S3'' = ''S3''" by (simp add: trim_def isSpace_def)
  show ?thesis
    by (simp add: validStudent_def createdStudent_def newStudent_def newcomer_def a b c
        sampleGuardian_cast sampleContact_cast)
      (simp add: genders_def
        statuses_def phonePattern_def isDigit_def validAddress_def validAcademicInfo_def
        validGuardianInfo_def validEmergencyContact_def validFinancialInfo_def
        validHostelInfo_def required_def requiredNum_def minV_def maxV_def matchV_def enumV_def
        feeStructures_def defaultFinancial_def defaultHostel_def sampleAddress_def
        sampleAcademic_def sampleGuardian_def sampleContact_def emailPattern_def wordRuns_def
        domainPattern_def lastRun_def isWord_def isSep_def isAlnum_def)
qed

theorem adminCreateStudent_two_writes_witness:
  "validateCreateStudent demoEnv newcomer = []
   \<and> \<not> userTaken soleAdminStore (cs_email newcomer) (cs_username newcomer)
   \<and> \<not> list_ex (\<lambda>st. studentId st = trim (cs_studentId newcomer)) (students soleAdminStore)
   \<and> isSuccess (fst (adminCreateStudent demoEnv 5 soleAdminStore newcomer))
   \<and> map username (users (snd (adminCreateStudent demoEnv 5 soleAdminStore newcomer)))
       = [''admin'', ''carol'']
   \<and> map studentId (students (snd (adminCreateStudent demoEnv 5 soleAdminStore newcomer)))
       = [''S3'']"
proof -
  have t: "\<not> userTaken soleAdminStore (cs_email newcomer) (cs_username newcomer)"
    by (simp add: userTaken_def soleAdminStore_def rootAdmin_def newcomer_def)
  have i: "\<not> list_ex (\<lambda>st. studentId st = trim (cs_studentId newcomer))
                (students soleAdminStore)"
    by (simp add: soleAdminStore_def)
  have ok: "isSuccess (fst (adminCreateStudent demoEnv 5 soleAdminStore newcomer))"
    by (simp add: adminCreateStudent_writes [OF newcomer_valid t i] saveStudent_def
        newcomer_accepted)
      (simp add: soleAdminStore_def createdStudent_def newStudent_def)
  from adminCreateStudent_two_writes [OF newcomer_valid, of soleAdminStore 5] t i ok
  have u: "users (snd (adminCreateStudent demoEnv 5 soleAdminStore newcomer))
         = users soleAdminStore @ [(createdUser demoEnv soleAdminStore newcomer)
             \<lparr>password := hashPassword demoEnv (cs_password newcomer)\<rparr>]"
    and "\<exists>st. students (snd (adminCreateStudent demoEnv 5 soleAdminStore newcomer))
            = students soleAdminStore @ [st]
          \<and> userId st = nextId soleAdminStore \<and> studentId st = trim (cs_studentId newcomer)"
    by auto
  then obtain st where
    st: "students (snd (adminCreateStudent demoEnv 5 soleAdminStore newcomer))
            = students soleAdminStore @ [st]" "studentId st = trim (cs_studentId newcomer)"
    by blast
  have 1: "map username (users (snd (adminCreateStudent demoEnv 5 soleAdminStore newcomer)))
       = [''admin'', ''carol'']"
    unfolding u by (simp add: soleAdminStore_def rootAdmin_def createdUser_def newcomer_def)
  have 2: "map studentId (students (snd (adminCreateStudent demoEnv 5 soleAdminStore newcomer)))
       = [''S3'']"
    unfolding st(1) using st(2)
    by (simp add: soleAdminStore_def newcomer_def trim_def isSpace_def)
  from newcomer_valid t i ok 1 2 show ?thesis by blast
qed

section \<open>The search of the student list\<close>

text \<open>
  Whatever the regular-expression search of the store does, a search string selects the
  Students by their \<open>studentId\<close> alone, together with the other filters: the three
  conditions on paths below \<open>userId\<close> hold for no stored document.
\<close>

lemma search_decided_by_studentId:
  assumes "str (q_search q) \<noteq> []"
  shows "matches e (buildFilter q) st \<longleftrightarrow>
     regexTest e (str (q_search q)) (studentId st)
     \<and> list_all (clauseHolds e st) (andClauses (buildFilter q))"
  using assms
  by (simp add: matches_def buildFilter_def clauseHolds_def studentPath_def)

text \<open>
  C5 (the search covers studentId and the User's first name, last name and e-mail). The
  filter does name the four fields, but the three of the User are addressed through the
  stored \<open>userId\<close>, where the query finds nothing. With two Students in the store, the
  first of them owned by the User "Alice", the search for "Alice" returns no Student and a
  total of 0, where the claim requires Alice's Student; the search for "s1" does return the
  Student whose studentId is "S1".
\<close>

theorem adminListStudents_search_by_name:
  "userById classStore (userId sampleStudent) = Some alice \<and> firstName alice = ''Alice''
   \<and> adminListStudents demoEnv classStore (searchFor ''Alice'')
       = Success 200 None
           ([], \<lparr>currentPage = 1, totalPages = 0, totalStudents = 0, hasNextPage = False,
                  hasPrevPage = False\<rparr>)
   \<and> adminListStudents demoEnv classStore (searchFor ''s1'')
       = Success 200 None
           ([(sampleStudent, Some alice)],
            \<lparr>currentPage = 1, totalPages = 1, totalStudents = 1, hasNextPage = False,
               hasPrevPage = False\<rparr>)"
proof -
  have m: "filter (matches demoEnv (buildFilter (searchFor ''Alice''))) (students classStore) = []"
    by (simp add: matches_def clauseHolds_def studentPath_def buildFilter_def searchFor_def
        str_def classStore_def sampleStudent_def demoEnv_def containsNoCase_def toLower_def)
  have n: "filter (matches demoEnv (buildFilter (searchFor ''s1''))) (students classStore)
             = [sampleStudent]"
    by (simp add: matches_def clauseHolds_def studentPath_def buildFilter_def searchFor_def
        str_def classStore_def sampleStudent_def demoEnv_def containsNoCase_def toLower_def)
  have v: "validateList (searchFor x) = []" for x
    by (simp add: validateList_def searchFor_def optional_def)
  have p: "q_page (searchFor x) = None" "q_limit (searchFor x) = None" for x
    by (simp_all add: searchFor_def)
  have u: "userById classStore (userId sampleStudent) = Some alice"
    by (simp add: userById_def classStore_def sampleStudent_def alice_def)
  show ?thesis
    by (simp add: adminListStudents_def Let_def v p m n u orNum_def ceilDiv_def)
      (simp add: alice_def)
qed

section \<open>The first admin\<close>

lemma registerWrite_admin:
  assumes "\<not> userTaken s (rq_email rq) (rq_username rq)" "rq_role rq = ''admin''"
    "jwtSecretSet e"
  shows "registerWrite e now s rq =
    (Success 201
       (Some (if isFirstAdmin e s ''admin'' then ''First admin user registered successfully''
              else ''User registered successfully''))
       (\<lparr>u_id = nextId s, username = rq_username rq, email = rq_email rq,
          password = hashPassword e (rq_password rq), firstName = rq_firstName rq,
          lastName = rq_lastName rq, role = ''admin'',
          isActive = isActiveDefault e, lastLogin = None\<rparr>,
        jwtSign e (nextId s), isFirstAdmin e s ''admin''),
     s\<lparr>users := users s @
          [\<lparr>u_id = nextId s, username = rq_username rq, email = rq_email rq,
            password = hashPassword e (rq_password rq), firstName = rq_firstName rq,
            lastName = rq_lastName rq, role = ''admin'',
            isActive = isActiveDefault e, lastLogin = None\<rparr>],
        nextId := Suc (nextId s)\<rparr>)"
  using assms by (simp add: registerWrite_def Let_def saveUser_def)

lemma register_valid:
  assumes "readyState e = 1"
    "validateUserFields e (rq_username rq) (rq_email rq) (rq_password rq)
       (rq_firstName rq) (rq_lastName rq) (rq_role rq) = []"
  shows "register e now s hdr rq =
     (case (if \<not> isFirstAdmin e s (rq_role rq) \<and> rq_role rq \<noteq> ''student''
            then registerAuth e s hdr else None) of
        Some refusal \<Rightarrow> (refusal, s)
      | None \<Rightarrow>
          if userTaken s (rq_email rq) (rq_username rq)
          then (Failure 400 ''User with this email or username already exists'', s)
          else registerWrite e now s rq)"
  using assms by (simp add: register_def)

lemma registerAuth_no_token:
  "bearerToken hdr = None \<Longrightarrow>
   registerAuth e s hdr = Some (Failure 401 ''Authentication required to register new users'')"
  by (simp add: registerAuth_def)

lemma register_admin_refused:
  assumes "readyState e = 1"
    "validateUserFields e (rq_username rq) (rq_email rq) (rq_password rq)
       (rq_firstName rq) (rq_lastName rq) (rq_role rq) = []"
    "rq_role rq = ''admin''" "bearerToken hdr = None" "0 < countAdmins s" "\<not> adminCountThrows e"
  shows "register e now s hdr rq
           = (Failure 401 ''Authentication required to register new users'', s)"
  using assms
  by (simp add: register_valid isFirstAdmin_def registerAuth_no_token)

lemma register_first_admin_ok:
  assumes "readyState e = 1" "jwtSecretSet e"
    "validateUserFields e (rq_username rq) (rq_email rq) (rq_password rq)
       (rq_firstName rq) (rq_lastName rq) (rq_role rq) = []"
    "rq_role rq = ''admin''" "countAdmins s = 0 \<or> adminCountThrows e"
    "\<not> userTaken s (rq_email rq) (rq_username rq)"
  shows "register e now s hdr rq =
    (Success 201 (Some ''First admin user registered successfully'')
       (\<lparr>u_id = nextId s, username = rq_username rq, email = rq_email rq,
          password = hashPassword e (rq_password rq), firstName = rq_firstName rq,
          lastName = rq_lastName rq, role = ''admin'',
          isActive = isActiveDefault e, lastLogin = None\<rparr>,
        jwtSign e (nextId s), True),
     s\<lparr>users := users s @
          [\<lparr>u_id = nextId s, username = rq_username rq, email = rq_email rq,
            password = hashPassword e (rq_password rq), firstName = rq_firstName rq,
            lastName = rq_lastName rq, role = ''admin'',
            isActive = isActiveDefault e, lastLogin = None\<rparr>],
        nextId := Suc (nextId s)\<rparr>)"
proof -
  have f: "isFirstAdmin e s ''admin''" using assms(5) by (auto simp: isFirstAdmin_def)
  show ?thesis
    using assms(4,6) f
    by (simp add: register_valid [OF assms(1,3)] registerWrite_admin [OF assms(6,4,2)])
qed

lemma register_student_header:
  "rq_role rq = ''student'' \<Longrightarrow> register e now s hdr rq = register e now s None rq"
  by (simp add: register_def isFirstAdmin_def)

lemma registerWrite_code:
  "statusCode (fst (registerWrite e now s rq)) \<in> {201, 500}"
  by (simp add: registerWrite_def Let_def split: option.splits)

lemma register_student_code:
  assumes "rq_role rq = ''student''"
  shows "statusCode (fst (register e now s hdr rq)) \<in> {201, 400, 500}"
  using assms registerWrite_code [of e now s rq]
  by (auto simp: register_def)

lemma register_admin_no_token:
  assumes "readyState e = 1" "jwtSecretSet e"
    "validateUserFields e (rq_username rq) (rq_email rq) (rq_password rq)
       (rq_firstName rq) (rq_lastName rq) (rq_role rq) = []"
    "rq_role rq = ''admin''" "bearerToken hdr = None"
  shows "register e now s hdr rq =
    (if countAdmins s = 0 \<or> adminCountThrows e
     then if userTaken s (rq_email rq) (rq_username rq)
          then (Failure 400 ''User with this email or username already exists'', s)
          else (Success 201 (Some ''First admin user registered successfully'')
                 (\<lparr>u_id = nextId s, username = rq_username rq, email = rq_email rq,
                    password = hashPassword e (rq_password rq), firstName = rq_firstName rq,
                    lastName = rq_lastName rq, role = ''admin'',
                    isActive = isActiveDefault e, lastLogin = None\<rparr>,
                  jwtSign e (nextId s), True),
                s\<lparr>users := users s @
                    [\<lparr>u_id = nextId s, username = rq_username rq, email = rq_email rq,
                      password = hashPassword e (rq_password rq),
                      firstName = rq_firstName rq, lastName = rq_lastName rq,
                      role = ''admin'', isActive = isActiveDefault e, lastLogin = None\<rparr>],
                  nextId := Suc (nextId s)\<rparr>)
     else (Failure 401 ''Authentication required to register new users'', s))"
proof (cases "countAdmins s = 0 \<or> adminCountThrows e")
  case False
  then show ?thesis
    using register_admin_refused [OF assms(1,3,4,5), where s = s and now = now] by auto
next
  case True
  show ?thesis
  proof (cases "userTaken s (rq_email rq) (rq_username rq)")
    case False
    with True register_first_admin_ok [OF assms(1,2,3,4) True False, where now = now and hdr = hdr]
    show ?thesis by simp
  next
    case taken: True
    have f: "isFirstAdmin e s (rq_role rq)"
      using True assms(4) by (auto simp: isFirstAdmin_def)
    from taken True f show ?thesis
      by (simp add: register_valid [OF assms(1,3)])
  qed
qed

lemma countAdmins_snoc_admin:
  "role u = ''admin'' \<Longrightarrow>
   countAdmins (s\<lparr>users := users s @ [u], nextId := n\<rparr>) = Suc (countAdmins s)"
  by (simp add: countAdmins_def)

text \<open>
  C9, as stated (an admin registers without a token exactly when no admin exists), fails:
  when the count of admins throws, the handler takes the request for the first admin's.
  With one admin in the store and a failing count, a registration with role admin and no
  \<open>Authorization\<close> header succeeds, returns \<open>isFirstAdmin = true\<close> and leaves two admins.
\<close>

theorem register_count_failure_counterexample:
  "countAdmins soleAdminStore = 1 \<and> bearerToken None = None
   \<and> rq_role adminCandidate = ''admin''
   \<and> fst (register (demoEnv\<lparr>adminCountThrows := True\<rparr>) 5 soleAdminStore None adminCandidate)
       = Success 201 (Some ''First admin user registered successfully'')
           (\<lparr>u_id = 2, username = ''root'', email = ''root@college.com'',
              password = ''#secret0'', firstName = ''Root'', lastName = ''Admin'',
              role = ''admin'', isActive = True, lastLogin = None\<rparr>, ''2'', True)
   \<and> countAdmins (snd (register (demoEnv\<lparr>adminCountThrows := True\<rparr>) 5 soleAdminStore None
         adminCandidate)) = 2"
proof -
  let ?e = "demoEnv\<lparr>adminCountThrows := True\<rparr>"
  have e: "readyState ?e = 1" "jwtSecretSet ?e" "adminCountThrows ?e"
    by (simp_all add: demoEnv_def)
  have v: "validateUserFields ?e (rq_username adminCandidate) (rq_email adminCandidate)
     (rq_password adminCandidate) (rq_firstName adminCandidate) (rq_lastName adminCandidate)
     (rq_role adminCandidate) = []"
    by (simp add: validateUserFields_def adminCandidate_def check_def demoEnv_def
      isAlphanumeric_def isAlnum_def roles_def)
  have r: "rq_role adminCandidate = ''admin''" by (simp add: adminCandidate_def)
  have h: "bearerToken None = None" by (simp add: bearerToken_def)
  have c: "countAdmins soleAdminStore = 1"
    by (simp add: countAdmins_def soleAdminStore_def rootAdmin_def)
  have f: "\<not> userTaken soleAdminStore (rq_email adminCandidate) (rq_username adminCandidate)"
    by (simp add: userTaken_def soleAdminStore_def rootAdmin_def adminCandidate_def)
  have t: "countAdmins soleAdminStore = 0 \<or> adminCountThrows ?e" using e(3) by simp
  note ok = register_first_admin_ok [OF e(1,2) v r t f, where now = 5 and hdr = None]
  have 1: "fst (register ?e 5 soleAdminStore None adminCandidate)
       = Success 201 (Some ''First admin user registered successfully'')
           (\<lparr>u_id = 2, username = ''root'', email = ''root@college.com'',
              password = ''#secret0'', firstName = ''Root'', lastName = ''Admin'',
              role = ''admin'', isActive = True, lastLogin = None\<rparr>, ''2'', True)"
    unfolding ok by (simp add: soleAdminStore_def adminCandidate_def demoEnv_def)
  have 2: "countAdmins (snd (register ?e 5 soleAdminStore None adminCandidate)) = 2"
    unfolding ok by (simp add: countAdmins_def soleAdminStore_def rootAdmin_def)
  from c h r 1 2 show ?thesis by blast
qed

text \<open>
  C9, amended (the bootstrap of the first admin). Let the database be connected,
  \<open>JWT_SECRET\<close> be configured and the request pass the route's validation. A registration
  with role admin and without a bearer token, whose username and e-mail are free, succeeds
  exactly when no admin is counted: the count of Users with role admin is zero, or the count
  throws. When such a registration succeeds, the reply is 201 with \<open>isFirstAdmin = true\<close>
  and the store holds one admin more. When the count works and an admin exists, the reply is
  401 "Authentication required to register new users" and the store is unchanged; this is what
  a second registration right after a successful first one gets. A registration with role
  student is answered the same with or without a header, and never with 401 or 403.
\<close>

theorem register_first_admin_bootstrap:
  assumes "readyState e = 1" "jwtSecretSet e"
    and "validateUserFields e (rq_username rq) (rq_email rq) (rq_password rq)
       (rq_firstName rq) (rq_lastName rq) (rq_role rq) = []"
  shows
   "(rq_role rq = ''admin'' \<and> bearerToken hdr = None
       \<and> \<not> userTaken s (rq_email rq) (rq_username rq) \<longrightarrow>
       (isSuccess (fst (register e now s hdr rq))
          \<longleftrightarrow> countAdmins s = 0 \<or> adminCountThrows e))
    \<and> (rq_role rq = ''admin'' \<and> bearerToken hdr = None
        \<and> isSuccess (fst (register e now s hdr rq)) \<longrightarrow>
         (\<exists>u tok. fst (register e now s hdr rq)
             = Success 201 (Some ''First admin user registered successfully'') (u, tok, True))
         \<and> countAdmins (snd (register e now s hdr rq)) = Suc (countAdmins s))
    \<and> (rq_role rq = ''admin'' \<and> bearerToken hdr = None \<and> 0 < countAdmins s
        \<and> \<not> adminCountThrows e \<longrightarrow>
         register e now s hdr rq
           = (Failure 401 ''Authentication required to register new users'', s))
    \<and> (rq_role rq = ''admin'' \<and> bearerToken hdr = None \<and> \<not> adminCountThrows e
        \<and> isSuccess (fst (register e now s hdr rq)) \<longrightarrow>
         register e later (snd (register e now s hdr rq)) hdr rq
           = (Failure 401 ''Authentication required to register new users'',
              snd (register e now s hdr rq)))
    \<and> (rq_role rq = ''student'' \<longrightarrow>
         register e now s hdr rq = register e now s None rq
         \<and> statusCode (fst (register e now s hdr rq)) \<in> {201, 400, 500})"
proof (intro conjI impI)
  assume a: "rq_role rq = ''admin'' \<and> bearerToken hdr = None
       \<and> \<not> userTaken s (rq_email rq) (rq_username rq)"
  then show "isSuccess (fst (register e now s hdr rq))
          \<longleftrightarrow> countAdmins s = 0 \<or> adminCountThrows e"
    using register_admin_no_token [OF assms, where hdr = hdr and s = s and now = now] by auto
next
  assume a: "rq_role rq = ''admin'' \<and> bearerToken hdr = None
        \<and> isSuccess (fst (register e now s hdr rq))"
  then have r: "rq_role rq = ''admin''" and h: "bearerToken hdr = None" by simp_all
  note c = register_admin_no_token [OF assms r h, where s = s and now = now]
  from a c show "\<exists>u tok. fst (register e now s hdr rq)
             = Success 201 (Some ''First admin user registered successfully'') (u, tok, True)"
    by (auto split: if_splits)
  from a c show "countAdmins (snd (register e now s hdr rq)) = Suc (countAdmins s)"
    by (auto simp: countAdmins_snoc_admin split: if_splits)
next
  assume "rq_role rq = ''admin'' \<and> bearerToken hdr = None \<and> 0 < countAdmins s
        \<and> \<not> adminCountThrows e"
  then show "register e now s hdr rq
           = (Failure 401 ''Authentication required to register new users'', s)"
    using register_admin_refused [OF assms(1,3), where hdr = hdr and s = s and now = now] by simp
next
  assume a: "rq_role rq = ''admin'' \<and> bearerToken hdr = None \<and> \<not> adminCountThrows e
        \<and> isSuccess (fst (register e now s hdr rq))"
  then have r: "rq_role rq = ''admin''" and h: "bearerToken hdr = None"
    and n: "\<not> adminCountThrows e" by simp_all
  note c = register_admin_no_token [OF assms r h, where s = s and now = now]
  from a c have "countAdmins (snd (register e now s hdr rq)) = Suc (countAdmins s)"
    by (auto simp: countAdmins_snoc_admin split: if_splits)
  then have "0 < countAdmins (snd (register e now s hdr rq))" by simp
  from register_admin_refused [OF assms(1,3) r h this n, where now = later]
  show "register e later (snd (register e now s hdr rq)) hdr rq
           = (Failure 401 ''Authentication required to register new users'',
              snd (register e now s hdr rq))" .
next
  assume "rq_role rq = ''student''"
  then show "register e now s hdr rq = register e now s None rq"
    by (rule register_student_header)
next
  assume "rq_role rq = ''student''"
  then show "statusCode (fst (register e now s hdr rq)) \<in> {201, 400, 500}"
    by (rule register_student_code)
qed

lemma adminCandidate_valid:
  "validateUserFields demoEnv (rq_username adminCandidate) (rq_email adminCandidate)
     (rq_password adminCandidate) (rq_firstName adminCandidate) (rq_lastName adminCandidate)
     (rq_role adminCandidate) = []"
  by (simp add: validateUserFields_def adminCandidate_def check_def demoEnv_def
      isAlphanumeric_def isAlnum_def roles_def)

theorem register_first_admin_bootstrap_witness:
  "readyState demoEnv = 1 \<and> jwtSecretSet demoEnv
   \<and> validateUserFields demoEnv (rq_username adminCandidate) (rq_email adminCandidate)
     (rq_password adminCandidate) (rq_firstName adminCandidate) (rq_lastName adminCandidate)
     (rq_role adminCandidate) = []
   \<and> rq_role adminCandidate = ''admin'' \<and> bearerToken None = None
   \<and> countAdmins emptyStore = 0
   \<and> isSuccess (fst (register demoEnv 5 emptyStore None adminCandidate))
   \<and> countAdmins (snd (register demoEnv 5 emptyStore None adminCandidate)) = 1
   \<and> register demoEnv 6 (snd (register demoEnv 5 emptyStore None adminCandidate)) None
        adminCandidate
      = (Failure 401 ''Authentication required to register new users'',
         snd (register demoEnv 5 emptyStore None adminCandidate))"
proof -
  have e: "readyState demoEnv = 1" "jwtSecretSet demoEnv" "\<not> adminCountThrows demoEnv"
    by (simp_all add: demoEnv_def)
  have r: "rq_role adminCandidate = ''admin''" by (simp add: adminCandidate_def)
  have h: "bearerToken None = None" by (simp add: bearerToken_def)
  have c: "countAdmins emptyStore = 0" by (simp add: countAdmins_def emptyStore_def)
  have f: "\<not> userTaken emptyStore (rq_email adminCandidate) (rq_username adminCandidate)"
    by (simp add: userTaken_def emptyStore_def)
  note t = register_first_admin_bootstrap [OF e(1,2) adminCandidate_valid, where hdr = None and s = emptyStore and now = 5 and later = 6]
  from t r h f c have ok: "isSuccess (fst (register demoEnv 5 emptyStore None adminCandidate))"
    by blast
  from t r h ok c
  have n: "countAdmins (snd (register demoEnv 5 emptyStore None adminCandidate)) = 1"
    by simp
  from t r h ok e(3)
  have again: "register demoEnv 6 (snd (register demoEnv 5 emptyStore None adminCandidate)) None
        adminCandidate
      = (Failure 401 ''Authentication required to register new users'',
         snd (register demoEnv 5 emptyStore None adminCandidate))"
    by blast
  from e adminCandidate_valid r h c ok n again show ?thesis by blast
qed

end
